theory Spec2Isabelle
  imports Complex_Main
begin

section \<open>JavaScript numbers\<close>

text \<open>
  The client code holds measurement values and parameter bounds as JavaScript numbers.
  A number is modelled by the real it denotes, or one of the three special values.
  The relational operators follow ECMAScript: every comparison with \<open>NaN\<close> is false,
  and two finite numbers compare as the reals they denote.
\<close>

datatype jsnum = NaN | NegInf | Fin real | PosInf

fun js_le :: "jsnum \<Rightarrow> jsnum \<Rightarrow> bool" where
  "js_le NaN _ = False"
| "js_le _ NaN = False"
| "js_le NegInf _ = True"
| "js_le _ PosInf = True"
| "js_le (Fin x) (Fin y) = (x \<le> y)"
| "js_le PosInf _ = False"
| "js_le (Fin x) NegInf = False"

definition js_ge :: "jsnum \<Rightarrow> jsnum \<Rightarrow> bool" where
  "js_ge a b = js_le b a"

fun isNaN :: "jsnum \<Rightarrow> bool" where
  "isNaN NaN = True"
| "isNaN _ = False"

section \<open>Data of the measurement list (MeasurementList.tsx)\<close>

text \<open>The joined row the list view receives: \<open>interface Measurement\<close>, lines 5-18.\<close>

record quality_parameters_join =
  qp_name :: string
  qp_unit :: string
  min_value :: "jsnum option"
  max_value :: "jsnum option"

record suppliers_join =
  sj_name :: string

record Measurement =
  m_id :: string
  m_value :: jsnum
  m_measured_at :: string
  quality_parameters :: quality_parameters_join
  suppliers :: suppliers_join

subsection \<open>The within-limits status\<close>

text \<open>
  The expression of lines 103-107, inside the status filter of \<open>loadMeasurements\<close>.
  \<open>x === null\<close> is \<open>x = None\<close>.
\<close>

definition filter_isWithinLimits :: "Measurement \<Rightarrow> bool" where
  "filter_isWithinLimits measurement =
     ((min_value (quality_parameters measurement) = None \<or>
         js_ge (m_value measurement) (the (min_value (quality_parameters measurement)))) \<and>
      (max_value (quality_parameters measurement) = None \<or>
         js_le (m_value measurement) (the (max_value (quality_parameters measurement)))))"

text \<open>The expression of lines 272-276, computed for the status badge of each table row.\<close>

definition badge_isWithinLimits :: "Measurement \<Rightarrow> bool" where
  "badge_isWithinLimits measurement =
     ((min_value (quality_parameters measurement) = None \<or>
         js_ge (m_value measurement) (the (min_value (quality_parameters measurement)))) \<and>
      (max_value (quality_parameters measurement) = None \<or>
         js_le (m_value measurement) (the (max_value (quality_parameters measurement)))))"

definition badge_text :: "Measurement \<Rightarrow> string" where
  "badge_text measurement =
     (if badge_isWithinLimits measurement then ''Within Limits'' else ''Out of Limits'')"

text \<open>
  The specification's wording of "within limits", on a value and the two optional bounds:
  no minimum configured or value at least the minimum, and no maximum configured or
  value at most the maximum.
\<close>

fun lower_ok :: "jsnum option \<Rightarrow> jsnum \<Rightarrow> bool" where
  "lower_ok None v = True"
| "lower_ok (Some lo) v = js_ge v lo"

fun upper_ok :: "jsnum option \<Rightarrow> jsnum \<Rightarrow> bool" where
  "upper_ok None v = True"
| "upper_ok (Some hi) v = js_le v hi"

definition spec_within_limits :: "jsnum option \<Rightarrow> jsnum option \<Rightarrow> jsnum \<Rightarrow> bool" where
  "spec_within_limits lo hi v = (lower_ok lo v \<and> upper_ok hi v)"

text \<open>A measurement of value \<open>v\<close> against a parameter with the bounds \<open>lo\<close> and \<open>hi\<close>.\<close>

definition sample :: "jsnum option \<Rightarrow> jsnum option \<Rightarrow> jsnum \<Rightarrow> Measurement" where
  "sample lo hi v =
     \<lparr>m_id = ''m'', m_value = v, m_measured_at = ''2025-02-24T10:00:00Z'',
      quality_parameters = \<lparr>qp_name = ''Diameter'', qp_unit = ''mm'', min_value = lo, max_value = hi\<rparr>,
      suppliers = \<lparr>sj_name = ''Test Supplier''\<rparr>\<rparr>"

subsection \<open>parseFloat\<close>

text \<open>
  \<open>parseFloat\<close> is the ECMAScript builtin. It skips leading white space, takes the
  longest prefix that is a \<open>StrDecimalLiteral\<close> (an optional sign, then \<open>Infinity\<close>,
  or digits with an optional fraction, or a dot and digits, each with an optional
  exponent part), and returns \<open>NaN\<close> when there is no such prefix. The model returns
  the exact decimal value of the prefix: the rounding to the nearest double, the sign of
  zero and the white space outside ASCII are left out.
\<close>

definition is_digit :: "char \<Rightarrow> bool" where
  "is_digit c = (c \<in> set ''0123456789'')"

text \<open>The value of a digit is its position in the string of the ten digits.\<close>

definition digit_val :: "char \<Rightarrow> nat" where
  "digit_val c = length (takeWhile (\<lambda>d. d \<noteq> c) ''0123456789'')"

definition digits_val :: "string \<Rightarrow> nat" where
  "digits_val ds = foldl (\<lambda>a c. 10 * a + digit_val c) 0 ds"

definition is_space :: "char \<Rightarrow> bool" where
  "is_space c = (c = CHR '' '' \<or> c = CHR 0x09 \<or> c = CHR 0x0A \<or> c = CHR 0x0B \<or>
                 c = CHR 0x0C \<or> c = CHR 0x0D)"

text \<open>The exponent of the longest \<open>ExponentPart\<close> that starts the string; 0 when none does.\<close>

definition signed_digits :: "string \<Rightarrow> int" where
  "signed_digits r =
     (case r of
        c # r' \<Rightarrow>
          (if c = CHR ''-'' then (if takeWhile is_digit r' = [] then 0 else - int (digits_val (takeWhile is_digit r')))
           else if c = CHR ''+'' then int (digits_val (takeWhile is_digit r'))
           else int (digits_val (takeWhile is_digit r)))
      | [] \<Rightarrow> 0)"

definition exponent_part :: "string \<Rightarrow> int" where
  "exponent_part r =
     (case r of
        c # r' \<Rightarrow> (if c = CHR ''e'' \<or> c = CHR ''E'' then signed_digits r' else 0)
      | [] \<Rightarrow> 0)"

definition scale10 :: "real \<Rightarrow> int \<Rightarrow> real" where
  "scale10 x e = (if 0 \<le> e then x * 10 ^ nat e else x / 10 ^ nat (- e))"

definition fraction_part :: "string \<Rightarrow> string \<times> string" where
  "fraction_part r =
     (case r of
        c # r' \<Rightarrow> (if c = CHR ''.'' then (takeWhile is_digit r', dropWhile is_digit r') else ([], r))
      | [] \<Rightarrow> ([], r))"

definition unsigned_literal :: "string \<Rightarrow> jsnum" where
  "unsigned_literal r =
     (if take 8 r = ''Infinity'' then PosInf
      else
        (let ip = takeWhile is_digit r;
             (fp, rest) = fraction_part (dropWhile is_digit r)
         in if ip = [] \<and> fp = [] then NaN
            else Fin (scale10 (real (digits_val ip) + real (digits_val fp) / 10 ^ length fp)
                        (exponent_part rest))))"

fun js_neg :: "jsnum \<Rightarrow> jsnum" where
  "js_neg NaN = NaN"
| "js_neg NegInf = PosInf"
| "js_neg (Fin x) = Fin (- x)"
| "js_neg PosInf = NegInf"

definition signed_literal :: "string \<Rightarrow> jsnum" where
  "signed_literal t =
     (case t of
        c # r \<Rightarrow> (if c = CHR ''-'' then js_neg (unsigned_literal r)
                   else if c = CHR ''+'' then unsigned_literal r
                   else unsigned_literal t)
      | [] \<Rightarrow> NaN)"

definition parseFloat :: "string \<Rightarrow> jsnum" where
  "parseFloat s = signed_literal (dropWhile is_space s)"

text \<open>
  A string has a numeric prefix when, after the white space and an optional sign, it
  starts with \<open>Infinity\<close>, with a digit, or with a dot followed by a digit.
\<close>

definition starts_number :: "string \<Rightarrow> bool" where
  "starts_number r =
     (take 8 r = ''Infinity'' \<or>
      (case r of
         c # r' \<Rightarrow> is_digit c \<or> (c = CHR ''.'' \<and> (case r' of d # _ \<Rightarrow> is_digit d | [] \<Rightarrow> False))
       | [] \<Rightarrow> False))"

definition has_numeric_prefix :: "string \<Rightarrow> bool" where
  "has_numeric_prefix s =
     (case dropWhile is_space s of
        c # r \<Rightarrow> (if c = CHR ''-'' \<or> c = CHR ''+'' then starts_number r else starts_number (c # r))
      | [] \<Rightarrow> False)"

section \<open>The backend as the client sees it\<close>

text \<open>
  The client calls the backend through the \<open>supabase\<close> object. A handler is modelled as
  a function from the component state and the backend's answers to the new state and
  the list of effects it issued, in order. An error value is either an \<open>Error\<close> instance
  with its message, as \<open>new Error(...)\<close> makes it, or an object that has a \<open>message\<close> but
  is no \<open>Error\<close> instance: the \<open>error\<close> of an answer of the client library is such an
  object, read from the body of the backend's response. The handlers' catch blocks
  display \<open>err instanceof Error ? err.message : 'An error occurred'\<close>. Every call of a
  handler stands inside its \<open>try\<close> block, and the calls are taken to answer: a mutation
  answers with its error or with none, a select with its error or its data.
\<close>

datatype thrown = JsError string | ErrorObject string

fun thrown_message :: "thrown \<Rightarrow> string" where
  "thrown_message (JsError message) = message"
| "thrown_message (ErrorObject message) = message"

fun display_message :: "thrown \<Rightarrow> string" where
  "display_message (JsError message) = message"
| "display_message (ErrorObject message) = ''An error occurred''"

record user =
  user_id :: string

record measurement_insert =
  ins_parameter_id :: string
  ins_value :: jsnum
  ins_measured_at :: string
  ins_supplier_id :: string

text \<open>
  The query builder calls of \<open>loadMeasurements\<close>, in the order they are applied:
  \<open>.eq(column, value)\<close>, \<open>.order(column, {ascending})\<close>, \<open>.gte(column, value)\<close> and
  \<open>.lte(column, value)\<close>.
\<close>

datatype qop =
    Q_eq string string
  | Q_order string bool
  | Q_gte string string
  | Q_lte string string

record query =
  q_from :: string
  q_ops :: "qop list"

datatype call =
    GetUser
  | InsertMeasurement measurement_insert
  | UpdateValue string jsnum
  | DeleteById string
  | SelectMeasurements query

datatype effect = Net call | Timer nat

text \<open>
  The answers of the backend: the identity of the session (\<open>None\<close> when there is none),
  the clock read by \<open>new Date().toISOString()\<close>, the error of a mutation (\<open>None\<close> on
  success), and the \<open>{data, error}\<close> of a select (\<open>data\<close> may be null).
\<close>

record backend =
  auth_user :: "user option"
  now_iso :: string
  reply :: "call \<Rightarrow> thrown option"
  select_reply :: "query \<Rightarrow> thrown + Measurement list option"

definition is_net :: "effect \<Rightarrow> bool" where
  "is_net e = (case e of Net _ \<Rightarrow> True | Timer _ \<Rightarrow> False)"

definition is_insert :: "effect \<Rightarrow> bool" where
  "is_insert e = (case e of Net (InsertMeasurement _) \<Rightarrow> True | _ \<Rightarrow> False)"

section \<open>The measurement form (MeasurementForm)\<close>

text \<open>
  The state variables of the component; \<open>value_text\<close> is the variable \<open>value\<close> and
  \<open>error_msg\<close> the variable \<open>error\<close>.
\<close>

record form_state =
  selectedParameter :: string
  value_text :: string
  loading :: bool
  error_msg :: "string option"
  success :: bool

text \<open>\<open>handleSubmit\<close>, lines 69-97 of the component.\<close>

definition handleSubmit :: "backend \<Rightarrow> form_state \<Rightarrow> form_state \<times> effect list" where
  "handleSubmit be st =
     (let s1 = st\<lparr>loading := True, error_msg := None, success := False\<rparr> in
      case auth_user be of
        None \<Rightarrow>
          (s1\<lparr>error_msg := Some (display_message (JsError ''No authenticated user'')),
              loading := False\<rparr>,
           [Net GetUser])
      | Some user \<Rightarrow>
          (let c = InsertMeasurement
                     \<lparr>ins_parameter_id = selectedParameter st,
                      ins_value = parseFloat (value_text st),
                      ins_measured_at = now_iso be,
                      ins_supplier_id = user_id user\<rparr>
           in case reply be c of
                Some err \<Rightarrow>
                  (s1\<lparr>error_msg := Some (display_message err), loading := False\<rparr>,
                   [Net GetUser, Net c])
              | None \<Rightarrow>
                  (s1\<lparr>success := True, value_text := [], selectedParameter := [],
                      loading := False\<rparr>,
                   [Net GetUser, Net c])))"

subsection \<open>The rendered form and its submission\<close>

text \<open>
  The controls the component renders inside \<open><form onSubmit={handleSubmit}>\<close>, with the
  attributes the claims depend on: the kind of control, the value bound to it, and the
  attributes \<open>required\<close> and \<open>disabled\<close>.
\<close>

datatype control_kind = select_control | number_input | submit_button

record control =
  ctl_id :: string
  ctl_kind :: control_kind
  ctl_value :: string
  ctl_required :: bool
  ctl_disabled :: bool

text \<open>
  The JSX of the component: \<open><select id="parameter" value={selectedParameter} required>\<close>,
  whose first option is the placeholder \<open><option value="">\<close> and whose other options
  carry the ids of the parameters; \<open><input type="number" id="value" value={value}
  step="any" required>\<close>; and \<open><button type="submit" disabled={loading}>\<close>.
\<close>

definition MeasurementForm_controls :: "form_state \<Rightarrow> control list" where
  "MeasurementForm_controls st =
     [\<lparr>ctl_id = ''parameter'', ctl_kind = select_control, ctl_value = selectedParameter st,
       ctl_required = True, ctl_disabled = False\<rparr>,
      \<lparr>ctl_id = ''value'', ctl_kind = number_input, ctl_value = value_text st,
       ctl_required = True, ctl_disabled = False\<rparr>,
      \<lparr>ctl_id = [], ctl_kind = submit_button, ctl_value = [],
       ctl_required = False, ctl_disabled = loading st\<rparr>]"

text \<open>
  The browser's side, after the HTML standard. A valid floating-point number is an
  optional minus sign, then digits, or a dot and digits, or both in that order, then
  optionally an exponent: \<open>e\<close> or \<open>E\<close>, an optional sign and digits. A number input whose
  value is no valid floating-point number has the empty value. A required control with
  the empty value is missing its value; for the select this is the placeholder option
  being the selected one. A form submits (fires the submit event, which runs the
  handler) when its submit button is not disabled and no control is missing its value;
  otherwise nothing happens.
\<close>

definition exponent_ok :: "string \<Rightarrow> bool" where
  "exponent_ok r =
     (case r of
        [] \<Rightarrow> True
      | c # r' \<Rightarrow>
          (c = CHR ''e'' \<or> c = CHR ''E'') \<and>
          (case r' of
             [] \<Rightarrow> False
           | x # r'' \<Rightarrow>
               if x = CHR ''-'' \<or> x = CHR ''+'' then r'' \<noteq> [] \<and> list_all is_digit r''
               else list_all is_digit r'))"

definition mantissa_ok :: "string \<Rightarrow> bool" where
  "mantissa_ok r =
     (case dropWhile is_digit r of
        [] \<Rightarrow> takeWhile is_digit r \<noteq> []
      | c # r' \<Rightarrow>
          if c = CHR ''.''
          then takeWhile is_digit r' \<noteq> [] \<and> exponent_ok (dropWhile is_digit r')
          else takeWhile is_digit r \<noteq> [] \<and> exponent_ok (c # r'))"

definition valid_floating_point_number :: "string \<Rightarrow> bool" where
  "valid_floating_point_number s =
     (case s of
        [] \<Rightarrow> False
      | c # r \<Rightarrow> if c = CHR ''-'' then mantissa_ok r else mantissa_ok s)"

definition sanitized_value :: "control \<Rightarrow> string" where
  "sanitized_value c =
     (if ctl_kind c = number_input \<and> \<not> valid_floating_point_number (ctl_value c) then []
      else ctl_value c)"

definition value_missing :: "control \<Rightarrow> bool" where
  "value_missing c = (ctl_required c \<and> \<not> ctl_disabled c \<and> sanitized_value c = [])"

definition submit_disabled :: "control list \<Rightarrow> bool" where
  "submit_disabled cs = list_ex (\<lambda>c. ctl_kind c = submit_button \<and> ctl_disabled c) cs"

definition form_submits :: "control list \<Rightarrow> bool" where
  "form_submits cs = (\<not> submit_disabled cs \<and> \<not> list_ex value_missing cs)"

text \<open>A submission of the form by the user: the handler runs when the form submits.\<close>

definition submission :: "backend \<Rightarrow> form_state \<Rightarrow> form_state \<times> effect list" where
  "submission be st =
     (if form_submits (MeasurementForm_controls st) then handleSubmit be st else (st, []))"

section \<open>The measurement list (MeasurementList)\<close>

text \<open>
  The filter and the state variables of the component; \<open>list_loading\<close> and \<open>list_error\<close>
  are the variables \<open>loading\<close> and \<open>error\<close>.
\<close>

datatype status = status_all | status_within | status_outside

record Filter =
  startDate :: string
  endDate :: string
  parameter :: string
  status :: status

record list_state =
  measurements :: "Measurement list"
  list_loading :: bool
  list_error :: "string option"
  editingId :: "string option"
  editValue :: string
  updateSuccess :: bool
  deletingId :: "string option"
  filters :: Filter

text \<open>
  The query of \<open>loadMeasurements\<close>, lines 66-93. A JavaScript string is truthy when it
  is not empty.
\<close>

definition measurements_query :: "string \<Rightarrow> Filter \<Rightarrow> query" where
  "measurements_query uid f =
     \<lparr>q_from = ''measurements'',
      q_ops =
        [Q_eq ''supplier_id'' uid, Q_order ''measured_at'' False]
        @ (if startDate f \<noteq> [] then [Q_gte ''measured_at'' (startDate f)] else [])
        @ (if endDate f \<noteq> [] then [Q_lte ''measured_at'' (endDate f)] else [])
        @ (if parameter f \<noteq> [] then [Q_eq ''parameter_id'' (parameter f)] else [])\<rparr>"

text \<open>The client-side status filter, lines 99-111.\<close>

definition status_filter :: "status \<Rightarrow> Measurement list \<Rightarrow> Measurement list" where
  "status_filter st filteredData =
     (if st \<noteq> status_all
      then filter (\<lambda>measurement.
             if st = status_within then filter_isWithinLimits measurement
             else \<not> filter_isWithinLimits measurement) filteredData
      else filteredData)"

text \<open>\<open>loadMeasurements\<close>, lines 61-119.\<close>

definition loadMeasurements :: "backend \<Rightarrow> list_state \<Rightarrow> list_state \<times> effect list" where
  "loadMeasurements be st =
     (case auth_user be of
        None \<Rightarrow>
          (st\<lparr>list_error := Some (display_message (JsError ''No authenticated user'')),
              list_loading := False\<rparr>,
           [Net GetUser])
      | Some user \<Rightarrow>
          (let q = measurements_query (user_id user) (filters st) in
           case select_reply be q of
             Inl err \<Rightarrow>
               (st\<lparr>list_error := Some (display_message err), list_loading := False\<rparr>,
                [Net GetUser, Net (SelectMeasurements q)])
           | Inr data \<Rightarrow>
               (st\<lparr>measurements :=
                      status_filter (status (filters st)) (case data of None \<Rightarrow> [] | Some d \<Rightarrow> d),
                   list_loading := False\<rparr>,
                [Net GetUser, Net (SelectMeasurements q)])))"

text \<open>\<open>handleUpdate\<close>, lines 133-163. The timer's callback is \<open>reset_edit\<close>.\<close>

definition handleUpdate :: "backend \<Rightarrow> list_state \<Rightarrow> Measurement \<Rightarrow> list_state \<times> effect list" where
  "handleUpdate be st measurement =
     (let newValue = parseFloat (editValue st) in
      if isNaN newValue
      then (st\<lparr>list_error := Some (display_message (JsError ''Please enter a valid number''))\<rparr>, [])
      else
        (let c = UpdateValue (m_id measurement) newValue in
         case reply be c of
           Some err \<Rightarrow> (st\<lparr>list_error := Some (display_message err)\<rparr>, [Net c])
         | None \<Rightarrow>
             (st\<lparr>updateSuccess := True,
                 measurements :=
                   map (\<lambda>m. if m_id m = m_id measurement then m\<lparr>m_value := newValue\<rparr> else m)
                     (measurements st)\<rparr>,
              [Net c, Timer 1500])))"

definition reset_edit :: "list_state \<Rightarrow> list_state" where
  "reset_edit st = st\<lparr>editingId := None, editValue := [], updateSuccess := False\<rparr>"

text \<open>\<open>handleDelete\<close>, lines 165-179.\<close>

definition handleDelete :: "backend \<Rightarrow> list_state \<Rightarrow> string \<Rightarrow> list_state \<times> effect list" where
  "handleDelete be st i =
     (let c = DeleteById i in
      case reply be c of
        Some err \<Rightarrow> (st\<lparr>list_error := Some (display_message err)\<rparr>, [Net c])
      | None \<Rightarrow>
          (st\<lparr>measurements := filter (\<lambda>m. m_id m \<noteq> i) (measurements st), deletingId := None\<rparr>,
           [Net c]))"

section \<open>Sample inputs\<close>

definition demo_backend :: backend where
  "demo_backend =
     \<lparr>auth_user = Some \<lparr>user_id = ''u1''\<rparr>, now_iso = ''2025-02-24T10:16:36.000Z'',
      reply = (\<lambda>c. None), select_reply = (\<lambda>q. Inr None)\<rparr>"

definition anonymous_backend :: backend where
  "anonymous_backend = demo_backend\<lparr>auth_user := None\<rparr>"

text \<open>A backend that rejects every mutation, with the error object of a policy denial.\<close>

definition rejecting_backend :: backend where
  "rejecting_backend =
     demo_backend\<lparr>reply := (\<lambda>c. Some (ErrorObject ''new row violates row-level security policy''))\<rparr>"

definition empty_parameter_form :: form_state where
  "empty_parameter_form = \<lparr>selectedParameter = [], value_text = ''12.5'', loading = False,
                            error_msg = None, success = False\<rparr>"

definition filled_form :: form_state where
  "filled_form = \<lparr>selectedParameter = ''p1'', value_text = ''12.5'', loading = False,
                  error_msg = None, success = False\<rparr>"

definition text_form :: form_state where
  "text_form = \<lparr>selectedParameter = ''p1'', value_text = ''abc'', loading = False,
                error_msg = None, success = False\<rparr>"

definition sample_list :: list_state where
  "sample_list =
     \<lparr>measurements =
        [sample (Some (Fin 10)) (Some (Fin 20)) (Fin 15)\<lparr>m_id := ''m1''\<rparr>,
         sample (Some (Fin 10)) (Some (Fin 20)) (Fin 25)\<lparr>m_id := ''m2''\<rparr>,
         sample None (Some (Fin 20)) (Fin 5)\<lparr>m_id := ''m3''\<rparr>],
      list_loading = False, list_error = None, editingId = Some ''m2'', editValue = ''abc'',
      updateSuccess = False, deletingId = None,
      filters = \<lparr>startDate = [], endDate = [], parameter = [], status = status_all\<rparr>\<rparr>"

definition number_list :: list_state where
  "number_list = sample_list\<lparr>editValue := ''17.25''\<rparr>"

definition listing_backend :: backend where
  "listing_backend = demo_backend\<lparr>select_reply := (\<lambda>q. Inr (Some (measurements sample_list)))\<rparr>"

definition filtered_list :: list_state where
  "filtered_list =
     sample_list\<lparr>measurements := [], list_loading := True,
       filters := \<lparr>startDate = ''2025-02-01'', endDate = [], parameter = [], status = status_within\<rparr>\<rparr>"

section \<open>The schema and its row-level security policies (SQL migrations)\<close>

text \<open>
  A uuid is held in its text form, so the casts \<open>::text\<close> of the policies are the
  identity. The three tables of the first migration, the commands a policy can be for,
  and the roles a request can run as.
\<close>

type_synonym uuid = string

datatype table_name = T_suppliers | T_quality_parameters | T_measurements

datatype command = FOR_SELECT | FOR_INSERT | FOR_UPDATE | FOR_DELETE | FOR_ALL

datatype role = anon | authenticated

text \<open>
  The expressions the policies of this schema use: \<open>true\<close>, and the equality of a uuid
  column with \<open>auth.uid()\<close>, both cast to text.
\<close>

datatype pexpr = P_true | P_col_is_uid string

record policy =
  pol_name :: string
  pol_table :: table_name
  pol_command :: command
  pol_roles :: "role list"
  pol_using :: "pexpr option"
  pol_with_check :: "pexpr option"

text \<open>
  Every \<open>CREATE POLICY\<close> of the migrations, in the order of the files: five in the
  initial schema, two for the quality parameters in the later migration.
\<close>

definition schema_policies :: "policy list" where
  "schema_policies =
     [\<lparr>pol_name = ''Suppliers can read own data'', pol_table = T_suppliers,
       pol_command = FOR_SELECT, pol_roles = [authenticated],
       pol_using = Some (P_col_is_uid ''id''), pol_with_check = None\<rparr>,
      \<lparr>pol_name = ''Quality parameters are readable by all authenticated users'',
       pol_table = T_quality_parameters, pol_command = FOR_SELECT, pol_roles = [authenticated],
       pol_using = Some P_true, pol_with_check = None\<rparr>,
      \<lparr>pol_name = ''Suppliers can read own measurements'', pol_table = T_measurements,
       pol_command = FOR_SELECT, pol_roles = [authenticated],
       pol_using = Some (P_col_is_uid ''supplier_id''), pol_with_check = None\<rparr>,
      \<lparr>pol_name = ''Suppliers can insert own measurements'', pol_table = T_measurements,
       pol_command = FOR_INSERT, pol_roles = [authenticated],
       pol_using = None, pol_with_check = Some (P_col_is_uid ''supplier_id'')\<rparr>,
      \<lparr>pol_name = ''Suppliers can update own measurements'', pol_table = T_measurements,
       pol_command = FOR_UPDATE, pol_roles = [authenticated],
       pol_using = Some (P_col_is_uid ''supplier_id''),
       pol_with_check = Some (P_col_is_uid ''supplier_id'')\<rparr>,
      \<lparr>pol_name = ''Authenticated users can insert quality parameters'',
       pol_table = T_quality_parameters, pol_command = FOR_INSERT, pol_roles = [authenticated],
       pol_using = None, pol_with_check = Some P_true\<rparr>,
      \<lparr>pol_name = ''Authenticated users can update quality parameters'',
       pol_table = T_quality_parameters, pol_command = FOR_UPDATE, pol_roles = [authenticated],
       pol_using = Some P_true, pol_with_check = Some P_true\<rparr>]"

text \<open>\<open>ALTER TABLE ... ENABLE ROW LEVEL SECURITY\<close>, for each of the three tables.\<close>

fun rls_enabled :: "table_name \<Rightarrow> bool" where
  "rls_enabled T_suppliers = True"
| "rls_enabled T_quality_parameters = True"
| "rls_enabled T_measurements = True"

text \<open>
  A request runs as a role, and \<open>auth.uid()\<close> is the id of its identity, or NULL. An
  authenticated identity \<open>u\<close> is the session of role \<open>authenticated\<close> whose uid is \<open>u\<close>.
  Roles that bypass row-level security (the table owner, the service role) are not
  sessions of this model.
\<close>

record session =
  sess_role :: role
  sess_uid :: "uuid option"

definition identity :: "uuid \<Rightarrow> session" where
  "identity u = \<lparr>sess_role = authenticated, sess_uid = Some u\<rparr>"

text \<open>A row, for a policy: its uuid columns by name, as text; \<open>None\<close> is NULL.\<close>

type_synonym uuid_columns = "string \<Rightarrow> string option"

text \<open>
  SQL's three-valued evaluation: an equality with a NULL operand is NULL (\<open>None\<close>), and
  a row passes an expression only when it evaluates to true.
\<close>

fun eval_pexpr :: "session \<Rightarrow> uuid_columns \<Rightarrow> pexpr \<Rightarrow> bool option" where
  "eval_pexpr s r P_true = Some True"
| "eval_pexpr s r (P_col_is_uid c) =
     (case r c of
        None \<Rightarrow> None
      | Some a \<Rightarrow> (case sess_uid s of None \<Rightarrow> None | Some b \<Rightarrow> Some (a = b)))"

definition passes :: "session \<Rightarrow> uuid_columns \<Rightarrow> pexpr \<Rightarrow> bool" where
  "passes s r e = (eval_pexpr s r e = Some True)"

text \<open>
  The policies that apply to a command on a table for a session: those of the table,
  for the command or for \<open>ALL\<close>, granted to the session's role. All policies of the
  schema are permissive: a row is let through when one applicable policy lets it
  through, and with no applicable policy nothing is (default deny). \<open>USING\<close> is
  checked on existing rows, \<open>WITH CHECK\<close> on new rows; a policy with no \<open>WITH CHECK\<close>
  checks new rows with its \<open>USING\<close>.
\<close>

definition applicable :: "policy list \<Rightarrow> session \<Rightarrow> table_name \<Rightarrow> command \<Rightarrow> policy list" where
  "applicable ps s t c =
     filter (\<lambda>p. pol_table p = t \<and> (pol_command p = c \<or> pol_command p = FOR_ALL) \<and>
                  sess_role s \<in> set (pol_roles p)) ps"

definition check_expr :: "policy \<Rightarrow> pexpr option" where
  "check_expr p = (case pol_with_check p of Some e \<Rightarrow> Some e | None \<Rightarrow> pol_using p)"

definition using_passes :: "policy list \<Rightarrow> session \<Rightarrow> table_name \<Rightarrow> command \<Rightarrow> uuid_columns \<Rightarrow> bool" where
  "using_passes ps s t c r =
     (if rls_enabled t
      then list_ex (passes s r) (List.map_filter pol_using (applicable ps s t c))
      else True)"

definition check_passes :: "policy list \<Rightarrow> session \<Rightarrow> table_name \<Rightarrow> command \<Rightarrow> uuid_columns \<Rightarrow> bool" where
  "check_passes ps s t c r =
     (if rls_enabled t
      then list_ex (passes s r) (List.map_filter check_expr (applicable ps s t c))
      else True)"

subsection \<open>The measurements table under the policies\<close>

record measurement_row =
  mr_id :: uuid
  supplier_id :: uuid
  parameter_id :: uuid
  mr_value :: real
  measured_at :: string

definition measurement_columns :: "measurement_row \<Rightarrow> uuid_columns" where
  "measurement_columns r c =
     (if c = ''id'' then Some (mr_id r)
      else if c = ''supplier_id'' then Some (supplier_id r)
      else if c = ''parameter_id'' then Some (parameter_id r)
      else None)"

definition may_select :: "session \<Rightarrow> measurement_row \<Rightarrow> bool" where
  "may_select s r = using_passes schema_policies s T_measurements FOR_SELECT (measurement_columns r)"

definition may_insert :: "session \<Rightarrow> measurement_row \<Rightarrow> bool" where
  "may_insert s r = check_passes schema_policies s T_measurements FOR_INSERT (measurement_columns r)"

definition may_update :: "session \<Rightarrow> measurement_row \<Rightarrow> measurement_row \<Rightarrow> bool" where
  "may_update s old new =
     (using_passes schema_policies s T_measurements FOR_UPDATE (measurement_columns old) \<and>
      check_passes schema_policies s T_measurements FOR_UPDATE (measurement_columns new))"

definition may_delete :: "session \<Rightarrow> measurement_row \<Rightarrow> bool" where
  "may_delete s r = using_passes schema_policies s T_measurements FOR_DELETE (measurement_columns r)"

text \<open>
  What the statements of a session do to the table: a select returns the rows the
  policies let through, a delete removes the rows that match its filter and that the
  policies let through (the others stay, without an error).
\<close>

definition select_rows :: "session \<Rightarrow> measurement_row list \<Rightarrow> measurement_row list" where
  "select_rows s tbl = filter (may_select s) tbl"

definition delete_rows :: "session \<Rightarrow> (measurement_row \<Rightarrow> bool) \<Rightarrow> measurement_row list \<Rightarrow> measurement_row list" where
  "delete_rows s matches tbl = filter (\<lambda>r. \<not> (matches r \<and> may_delete s r)) tbl"

text \<open>The policy layer as a step relation: the row changes a session can make.\<close>

datatype row_change =
    Insert_row measurement_row
  | Update_row measurement_row measurement_row
  | Delete_row measurement_row

inductive policy_step :: "session \<Rightarrow> measurement_row list \<Rightarrow> row_change \<Rightarrow> measurement_row list \<Rightarrow> bool" where
  step_insert: "may_insert s new \<Longrightarrow> policy_step s tbl (Insert_row new) (tbl @ [new])"
| step_update: "old \<in> set tbl \<Longrightarrow> may_update s old new \<Longrightarrow>
     policy_step s tbl (Update_row old new) (map (\<lambda>r. if r = old then new else r) tbl)"
| step_delete: "old \<in> set tbl \<Longrightarrow> may_delete s old \<Longrightarrow>
     policy_step s tbl (Delete_row old) (remove1 old tbl)"

code_pred policy_step .

definition demo_rows :: "measurement_row list" where
  "demo_rows =
     [\<lparr>mr_id = ''r1'', supplier_id = ''u1'', parameter_id = ''p1'', mr_value = 15,
       measured_at = ''2025-02-24T10:00:00Z''\<rparr>,
      \<lparr>mr_id = ''r2'', supplier_id = ''u2'', parameter_id = ''p1'', mr_value = 25,
       measured_at = ''2025-02-24T11:00:00Z''\<rparr>]"

section \<open>Supplier provisioning (the signup trigger and the backfill)\<close>

text \<open>
  A row of \<open>auth.users\<close>, the platform's table of identities: its id (the primary key),
  its email (which may be NULL) and its metadata, a JSON object given by its keys with
  their values as text (\<open>None\<close> for a JSON null). \<open>json_text\<close> is the operator \<open>->>\<close>: NULL
  when the key is absent or its value is null.
\<close>

record auth_user_row =
  au_id :: uuid
  au_email :: "string option"
  raw_user_meta_data :: "(string \<times> string option) list"

definition json_text :: "(string \<times> string option) list \<Rightarrow> string \<Rightarrow> string option" where
  "json_text obj k = (case map_of obj k of Some v \<Rightarrow> v | None \<Rightarrow> None)"

fun COALESCE :: "'a option \<Rightarrow> 'a option \<Rightarrow> 'a option" where
  "COALESCE (Some x) y = Some x"
| "COALESCE None y = y"

text \<open>
  The table \<open>suppliers\<close>: \<open>id\<close> is the primary key, \<open>name\<close> and \<open>email\<close> are \<open>NOT NULL\<close>,
  \<open>email\<close> is \<open>UNIQUE\<close>. (\<open>created_at\<close> has a default and plays no part.)
\<close>

record supplier_row =
  s_id :: uuid
  s_name :: string
  s_email :: string

datatype db_error = not_null_violation string | unique_violation string

text \<open>
  The insert of one row \<open>(id, email, name)\<close> into \<open>suppliers\<close>, by the trigger function
  (\<open>SECURITY DEFINER\<close>) or by the migration, which both run as the owner of the table:
  the row-level security of \<open>suppliers\<close> does not apply to them. The \<open>NOT NULL\<close> columns are
  checked first, in the order of the columns of the table (\<open>name\<close> before \<open>email\<close>), then
  the unique indexes. With \<open>ON CONFLICT (id) DO NOTHING\<close> a row whose id is taken is
  skipped; a taken email is an error in both forms.
\<close>

definition insert_supplier ::
  "bool \<Rightarrow> uuid \<Rightarrow> string option \<Rightarrow> string option \<Rightarrow> supplier_row list \<Rightarrow> db_error + supplier_row list" where
  "insert_supplier on_conflict_id_do_nothing i e n tbl =
     (case n of
        None \<Rightarrow> Inl (not_null_violation ''name'')
      | Some name \<Rightarrow>
          (case e of
             None \<Rightarrow> Inl (not_null_violation ''email'')
           | Some email \<Rightarrow>
               if i \<in> set (map s_id tbl)
               then (if on_conflict_id_do_nothing then Inr tbl
                     else Inl (unique_violation ''suppliers_pkey''))
               else if email \<in> set (map s_email tbl)
               then Inl (unique_violation ''suppliers_email_key'')
               else Inr (tbl @ [\<lparr>s_id = i, s_name = name, s_email = email\<rparr>])))"

text \<open>
  \<open>handle_new_user\<close>, the trigger function:
  \<open>INSERT INTO public.suppliers (id, email, name)
   VALUES (new.id, new.email, COALESCE(new.raw_user_meta_data->>'full_name', new.email))\<close>.
\<close>

definition handle_new_user :: "auth_user_row \<Rightarrow> supplier_row list \<Rightarrow> db_error + supplier_row list" where
  "handle_new_user new tbl =
     insert_supplier False (au_id new) (au_email new)
       (COALESCE (json_text (raw_user_meta_data new) ''full_name'') (au_email new)) tbl"

record database =
  auth_users :: "auth_user_row list"
  suppliers_table :: "supplier_row list"

text \<open>
  The creation of an identity: the insert into \<open>auth.users\<close>, then the trigger
  \<open>on_auth_user_created\<close> (\<open>AFTER INSERT ... FOR EACH ROW\<close>) in the same transaction. An
  error of the trigger aborts the insert, and the database is unchanged.
\<close>

definition create_identity :: "auth_user_row \<Rightarrow> database \<Rightarrow> db_error + database" where
  "create_identity new db =
     (if au_id new \<in> set (map au_id (auth_users db)) then Inl (unique_violation ''users_pkey'')
      else
        (case handle_new_user new (suppliers_table db) of
           Inl err \<Rightarrow> Inl err
         | Inr tbl \<Rightarrow> Inr \<lparr>auth_users = auth_users db @ [new], suppliers_table = tbl\<rparr>))"

text \<open>
  The backfill statement:
  \<open>INSERT INTO public.suppliers (id, email, name)
   SELECT id, email, email as name FROM auth.users
   WHERE id NOT IN (SELECT id FROM public.suppliers)
   ON CONFLICT (id) DO NOTHING\<close>.
  The selected rows are inserted one after the other; an error aborts the statement.
\<close>

fun backfill_rows :: "auth_user_row list \<Rightarrow> supplier_row list \<Rightarrow> db_error + supplier_row list" where
  "backfill_rows [] tbl = Inr tbl"
| "backfill_rows (u # us) tbl =
     (case insert_supplier True (au_id u) (au_email u) (au_email u) tbl of
        Inl err \<Rightarrow> Inl err
      | Inr tbl' \<Rightarrow> backfill_rows us tbl')"

definition lacking_supplier :: "database \<Rightarrow> auth_user_row list" where
  "lacking_supplier db =
     filter (\<lambda>u. au_id u \<notin> set (map s_id (suppliers_table db))) (auth_users db)"

definition backfill :: "database \<Rightarrow> db_error + database" where
  "backfill db =
     (case backfill_rows (lacking_supplier db) (suppliers_table db) of
        Inl err \<Rightarrow> Inl err
      | Inr tbl \<Rightarrow> Inr (db\<lparr>suppliers_table := tbl\<rparr>))"

text \<open>The row of the second migration, and an identity that lacks a supplier row.\<close>

definition test_supplier :: supplier_row where
  "test_supplier =
     \<lparr>s_id = ''00000000-0000-0000-0000-000000000000'', s_name = ''Test Supplier'',
      s_email = ''supplier@test.com''\<rparr>"

definition alice :: auth_user_row where
  "alice =
     \<lparr>au_id = ''a1'', au_email = Some ''alice@example.com'',
      raw_user_meta_data = [(''full_name'', Some ''Alice'')]\<rparr>"

definition legacy_db :: database where
  "legacy_db = \<lparr>auth_users = [alice], suppliers_table = [test_supplier]\<rparr>"

subsection \<open>The list view's query on the measurements table\<close>

text \<open>
  What the operators of the query builder mean on a row of \<open>measurements\<close>: \<open>eq\<close> is
  equality on a uuid column, \<open>gte\<close> and \<open>lte\<close> are \<open>>=\<close> and \<open><=\<close> on \<open>measured_at\<close>, and
  \<open>order\<close> sorts by \<open>measured_at\<close>, ascending or descending. The database reads the text
  of a filter as a point in time; \<open>ts\<close> is that reading.
\<close>

fun qop_holds :: "(string \<Rightarrow> int) \<Rightarrow> measurement_row \<Rightarrow> qop \<Rightarrow> bool" where
  "qop_holds ts r (Q_eq c v) = (measurement_columns r c = Some v)"
| "qop_holds ts r (Q_gte c v) = (c = ''measured_at'' \<and> ts v \<le> ts (measured_at r))"
| "qop_holds ts r (Q_lte c v) = (c = ''measured_at'' \<and> ts (measured_at r) \<le> ts v)"
| "qop_holds ts r (Q_order c ascending) = True"

fun apply_order :: "(string \<Rightarrow> int) \<Rightarrow> qop \<Rightarrow> measurement_row list \<Rightarrow> measurement_row list" where
  "apply_order ts (Q_order c ascending) rows =
     (if c = ''measured_at''
      then sort_key (\<lambda>r. if ascending then ts (measured_at r) else - ts (measured_at r)) rows
      else rows)"
| "apply_order ts _ rows = rows"

definition query_rows :: "(string \<Rightarrow> int) \<Rightarrow> qop list \<Rightarrow> measurement_row list \<Rightarrow> measurement_row list" where
  "query_rows ts ops tbl = foldr (apply_order ts) ops (filter (\<lambda>r. list_all (qop_holds ts r) ops) tbl)"

text \<open>A reading of dates for the samples: the digits of the text, as a number.\<close>

definition digits_key :: "string \<Rightarrow> int" where
  "digits_key s = int (digits_val (filter is_digit s))"

definition dated_rows :: "measurement_row list" where
  "dated_rows =
     [\<lparr>mr_id = ''r1'', supplier_id = ''u1'', parameter_id = ''p1'', mr_value = 15,
       measured_at = ''2025-01-15''\<rparr>,
      \<lparr>mr_id = ''r2'', supplier_id = ''u2'', parameter_id = ''p1'', mr_value = 25,
       measured_at = ''2025-02-20''\<rparr>,
      \<lparr>mr_id = ''r3'', supplier_id = ''u1'', parameter_id = ''p2'', mr_value = 5,
       measured_at = ''2025-02-01''\<rparr>,
      \<lparr>mr_id = ''r4'', supplier_id = ''u1'', parameter_id = ''p1'', mr_value = 12,
       measured_at = ''2025-02-24''\<rparr>]"

section \<open>Theorems\<close>

lemma filter_within_spec:
  "filter_isWithinLimits m =
     spec_within_limits (min_value (quality_parameters m)) (max_value (quality_parameters m)) (m_value m)"
  by (cases "min_value (quality_parameters m)"; cases "max_value (quality_parameters m)")
     (simp_all add: filter_isWithinLimits_def spec_within_limits_def)

lemma badge_within_spec:
  "badge_isWithinLimits m =
     spec_within_limits (min_value (quality_parameters m)) (max_value (quality_parameters m)) (m_value m)"
  by (cases "min_value (quality_parameters m)"; cases "max_value (quality_parameters m)")
     (simp_all add: badge_isWithinLimits_def spec_within_limits_def)

text \<open>
  C2. For every measurement, the status used by the client-side status filter and the
  status shown by the badge both equal the specification's "within limits":
  (no minimum, or value >= minimum) and (no maximum, or value <= maximum). With the
  bounds 10 and 20 the values 10 and 20 are within limits, 9.99 and 20.01 are outside;
  with no minimum only the maximum constrains.
\<close>

theorem C2_within_limits:
  "filter_isWithinLimits m =
     spec_within_limits (min_value (quality_parameters m)) (max_value (quality_parameters m)) (m_value m)
   \<and> badge_isWithinLimits m =
     spec_within_limits (min_value (quality_parameters m)) (max_value (quality_parameters m)) (m_value m)
   \<and> (badge_text m = ''Within Limits'') = filter_isWithinLimits m
   \<and> filter_isWithinLimits (sample (Some (Fin 10)) (Some (Fin 20)) (Fin 10))
   \<and> filter_isWithinLimits (sample (Some (Fin 10)) (Some (Fin 20)) (Fin 20))
   \<and> \<not> filter_isWithinLimits (sample (Some (Fin 10)) (Some (Fin 20)) (Fin 9.99))
   \<and> \<not> filter_isWithinLimits (sample (Some (Fin 10)) (Some (Fin 20)) (Fin 20.01))
   \<and> filter_isWithinLimits (sample None (Some (Fin 20)) (Fin x)) = (x \<le> 20)
   \<and> filter_isWithinLimits (sample None hi v) = upper_ok hi v"
proof -
  have gen: "filter_isWithinLimits (sample None hi v) = upper_ok hi v"
    by (cases hi) (simp_all add: filter_isWithinLimits_def sample_def)
  have eq: "badge_isWithinLimits m = filter_isWithinLimits m"
    by (simp add: filter_within_spec badge_within_spec)
  have bt: "(badge_text m = ''Within Limits'') = filter_isWithinLimits m"
    by (simp add: badge_text_def eq)
  have ex: "filter_isWithinLimits (sample (Some (Fin 10)) (Some (Fin 20)) (Fin 10))"
    "filter_isWithinLimits (sample (Some (Fin 10)) (Some (Fin 20)) (Fin 20))"
    "\<not> filter_isWithinLimits (sample (Some (Fin 10)) (Some (Fin 20)) (Fin 9.99))"
    "\<not> filter_isWithinLimits (sample (Some (Fin 10)) (Some (Fin 20)) (Fin 20.01))"
    by (simp_all add: filter_isWithinLimits_def sample_def js_ge_def)
  have up: "filter_isWithinLimits (sample None (Some (Fin 20)) (Fin x)) = (x \<le> 20)"
    by (simp add: filter_isWithinLimits_def sample_def)
  show ?thesis
    using filter_within_spec [of m] badge_within_spec [of m] bt ex up gen by blast
qed

theorem C2_within_limits_witness:
  "filter_isWithinLimits (sample (Some (Fin 10)) (Some (Fin 20)) NaN) = False
   \<and> spec_within_limits (Some (Fin 10)) (Some (Fin 20)) NaN = False
   \<and> badge_text (sample (Some (Fin 10)) (Some (Fin 20)) (Fin 15)) = ''Within Limits''
   \<and> filter_isWithinLimits (sample None (Some (Fin 20)) (Fin (-1000000))) = True"
  using C2_within_limits [of "sample (Some (Fin 10)) (Some (Fin 20)) NaN" "-1000000" None NaN]
    C2_within_limits [of "sample (Some (Fin 10)) (Some (Fin 20)) (Fin 15)" 0 None NaN]
  by (simp add: sample_def spec_within_limits_def js_ge_def)

subsection \<open>parseFloat and NaN\<close>

lemmas parseFloat_defs = parseFloat_def signed_literal_def unsigned_literal_def fraction_part_def
  exponent_part_def signed_digits_def scale10_def digits_val_def digit_val_def is_digit_def is_space_def

lemma isNaN_unsigned_literal: "isNaN (unsigned_literal r) = (\<not> starts_number r)"
proof (cases r)
  case Nil
  then show ?thesis
    by (simp add: unsigned_literal_def starts_number_def fraction_part_def)
next
  case (Cons c r')
  then show ?thesis
    by (cases r')
       (auto simp: unsigned_literal_def starts_number_def fraction_part_def Let_def
             split: prod.splits if_splits list.splits)
qed

lemma isNaN_js_neg: "isNaN (js_neg x) = isNaN x"
  by (cases x) simp_all

lemma isNaN_signed_literal:
  "isNaN (signed_literal t) =
     (\<not> (case t of c # r \<Rightarrow> (if c = CHR ''-'' \<or> c = CHR ''+'' then starts_number r else starts_number (c # r))
             | [] \<Rightarrow> False))"
  by (cases t) (simp_all add: signed_literal_def isNaN_unsigned_literal isNaN_js_neg)

lemma isNaN_parseFloat: "isNaN (parseFloat s) = (\<not> has_numeric_prefix s)"
  unfolding parseFloat_def has_numeric_prefix_def by (rule isNaN_signed_literal)

lemma isNaN_iff: "isNaN x = (x = NaN)"
  by (cases x) simp_all

subsection \<open>The measurement form\<close>

lemmas browser_defs = valid_floating_point_number_def mantissa_ok_def exponent_ok_def is_digit_def

lemma required_controls:
  "form_submits (MeasurementForm_controls st) =
     (\<not> loading st \<and> selectedParameter st \<noteq> [] \<and> valid_floating_point_number (value_text st))"
  by (auto simp: form_submits_def submit_disabled_def value_missing_def sanitized_value_def
        MeasurementForm_controls_def valid_floating_point_number_def)

text \<open>
  C5. A submission of the form with no quality parameter selected is rejected by the
  required-field validation before the handler runs: the required select has the empty
  value, the form does not submit, the state is unchanged and no effect is issued,
  neither the identity resolution nor the insert. The same holds when the value is no
  valid number. With a parameter selected, a valid number and the button enabled, the
  submission is the run of the handler. It is the \<open>required\<close> of the select that rejects:
  the handler has no check of its own, and without that attribute the form would submit
  whatever the parameter.
\<close>

theorem C5_required_parameter:
  "(selectedParameter st = [] \<longrightarrow> submission be st = (st, []))
   \<and> (\<not> valid_floating_point_number (value_text st) \<longrightarrow> submission be st = (st, []))
   \<and> (selectedParameter st \<noteq> [] \<and> valid_floating_point_number (value_text st) \<and> \<not> loading st \<longrightarrow>
        submission be st = handleSubmit be st)
   \<and> form_submits (map (\<lambda>c. if ctl_kind c = select_control then c\<lparr>ctl_required := False\<rparr> else c)
        (MeasurementForm_controls st)) =
       (\<not> loading st \<and> valid_floating_point_number (value_text st))"
proof -
  have free: "form_submits (map (\<lambda>c. if ctl_kind c = select_control then c\<lparr>ctl_required := False\<rparr> else c)
        (MeasurementForm_controls st)) =
       (\<not> loading st \<and> valid_floating_point_number (value_text st))"
    by (auto simp: form_submits_def submit_disabled_def value_missing_def sanitized_value_def
        MeasurementForm_controls_def valid_floating_point_number_def)
  show ?thesis
    by (simp add: submission_def required_controls free)
qed

theorem C5_required_parameter_witness:
  "selectedParameter empty_parameter_form = []
   \<and> submission demo_backend empty_parameter_form = (empty_parameter_form, [])
   \<and> snd (handleSubmit demo_backend empty_parameter_form) \<noteq> []
   \<and> submission demo_backend text_form = (text_form, [])
   \<and> snd (submission demo_backend filled_form) =
       [Net GetUser,
        Net (InsertMeasurement
          \<lparr>ins_parameter_id = ''p1'', ins_value = Fin 12.5,
           ins_measured_at = ''2025-02-24T10:16:36.000Z'', ins_supplier_id = ''u1''\<rparr>)]"
proof -
  have e: "selectedParameter empty_parameter_form = []"
    by (simp add: empty_parameter_form_def)
  from C5_required_parameter [of empty_parameter_form demo_backend] e
  have a: "submission demo_backend empty_parameter_form = (empty_parameter_form, [])"
    by blast
  have t: "\<not> valid_floating_point_number (value_text text_form)"
    by (simp add: text_form_def browser_defs)
  from C5_required_parameter [of text_form demo_backend] t
  have b: "submission demo_backend text_form = (text_form, [])"
    by blast
  have f: "selectedParameter filled_form \<noteq> [] \<and> valid_floating_point_number (value_text filled_form)
      \<and> \<not> loading filled_form"
    by (simp add: filled_form_def browser_defs)
  from C5_required_parameter [of filled_form demo_backend] f
  have c: "submission demo_backend filled_form = handleSubmit demo_backend filled_form"
    by blast
  have d: "snd (handleSubmit demo_backend empty_parameter_form) \<noteq> []"
    "snd (handleSubmit demo_backend filled_form) =
       [Net GetUser,
        Net (InsertMeasurement
          \<lparr>ins_parameter_id = ''p1'', ins_value = Fin 12.5,
           ins_measured_at = ''2025-02-24T10:16:36.000Z'', ins_supplier_id = ''u1''\<rparr>)]"
    by (simp_all add: handleSubmit_def demo_backend_def empty_parameter_form_def filled_form_def
          parseFloat_defs)
  show ?thesis
    using e a b c d by simp
qed

text \<open>What a run of the submit handler does, whatever the answers of the backend.\<close>

lemma handleSubmit_outcome:
  "hd (snd (handleSubmit be st)) = Net GetUser
   \<and> loading (fst (handleSubmit be st)) = False
   \<and> (auth_user be = None \<longrightarrow>
        filter is_insert (snd (handleSubmit be st)) = []
        \<and> error_msg (fst (handleSubmit be st)) = Some ''No authenticated user''
        \<and> \<not> success (fst (handleSubmit be st)))
   \<and> (\<forall>u. auth_user be = Some u \<longrightarrow>
        filter is_insert (snd (handleSubmit be st)) =
          [Net (InsertMeasurement
             \<lparr>ins_parameter_id = selectedParameter st, ins_value = parseFloat (value_text st),
              ins_measured_at = now_iso be, ins_supplier_id = user_id u\<rparr>)]
        \<and> (case reply be (InsertMeasurement
             \<lparr>ins_parameter_id = selectedParameter st, ins_value = parseFloat (value_text st),
              ins_measured_at = now_iso be, ins_supplier_id = user_id u\<rparr>) of
             None \<Rightarrow> success (fst (handleSubmit be st)) \<and> error_msg (fst (handleSubmit be st)) = None
           | Some err \<Rightarrow> \<not> success (fst (handleSubmit be st))
               \<and> error_msg (fst (handleSubmit be st)) = Some (display_message err)))
   \<and> (success (fst (handleSubmit be st)) \<longrightarrow>
        value_text (fst (handleSubmit be st)) = [] \<and> selectedParameter (fst (handleSubmit be st)) = [])
   \<and> (\<not> success (fst (handleSubmit be st)) \<longrightarrow>
        error_msg (fst (handleSubmit be st)) \<noteq> None
        \<and> value_text (fst (handleSubmit be st)) = value_text st
        \<and> selectedParameter (fst (handleSubmit be st)) = selectedParameter st)"
  by (cases "auth_user be")
     (auto simp: handleSubmit_def Let_def is_insert_def split: option.splits)

text \<open>
  The message of a rejected insert never reaches the form: the error of the answer is
  an object that is no \<open>Error\<close> instance, and the catch block shows its fixed text.
\<close>

lemma handleSubmit_error_object:
  assumes "auth_user be = Some u"
    and "reply be (InsertMeasurement
           \<lparr>ins_parameter_id = selectedParameter st, ins_value = parseFloat (value_text st),
            ins_measured_at = now_iso be, ins_supplier_id = user_id u\<rparr>) = Some (ErrorObject message)"
  shows "error_msg (fst (handleSubmit be st)) = Some ''An error occurred''"
  using assms by (simp add: handleSubmit_def Let_def)

text \<open>
  C6. The submit handler resolves the identity first, issues no insert without one and
  exactly one insert with one, clears the inputs on success and keeps them on failure;
  the claim adds that on any failure the error message is surfaced. That part fails at
  a backend rejection. With an identity, the parameter \<open>p1\<close> and the value \<open>12.5\<close>, the
  handler issues the identity resolution and the insert; the backend rejects the insert
  with an error whose message is \<open>new row violates row-level security policy\<close>; the
  inputs keep their text and no confirmation is shown, but the form shows
  \<open>An error occurred\<close>, which is not the message of the error. The catch block reads
  \<open>err.message\<close> only of an \<open>Error\<close> instance, as for the missing identity, whose message
  is shown.
\<close>

theorem C6_backend_message_lost:
  "snd (handleSubmit rejecting_backend filled_form) =
     [Net GetUser,
      Net (InsertMeasurement
        \<lparr>ins_parameter_id = ''p1'', ins_value = Fin 12.5,
         ins_measured_at = ''2025-02-24T10:16:36.000Z'', ins_supplier_id = ''u1''\<rparr>)]
   \<and> map_option thrown_message
         (reply rejecting_backend
            (InsertMeasurement
               \<lparr>ins_parameter_id = ''p1'', ins_value = Fin 12.5,
                ins_measured_at = ''2025-02-24T10:16:36.000Z'', ins_supplier_id = ''u1''\<rparr>)) =
       Some ''new row violates row-level security policy''
   \<and> error_msg (fst (handleSubmit rejecting_backend filled_form)) = Some ''An error occurred''
   \<and> error_msg (fst (handleSubmit rejecting_backend filled_form)) \<noteq>
       Some ''new row violates row-level security policy''
   \<and> success (fst (handleSubmit rejecting_backend filled_form)) = False
   \<and> value_text (fst (handleSubmit rejecting_backend filled_form)) = ''12.5''
   \<and> selectedParameter (fst (handleSubmit rejecting_backend filled_form)) = ''p1''
   \<and> error_msg (fst (handleSubmit anonymous_backend filled_form)) = Some ''No authenticated user''"
  by (simp add: handleSubmit_def demo_backend_def filled_form_def anonymous_backend_def
        rejecting_backend_def parseFloat_defs)

text \<open>
  C10. The submit handler does not validate the value text: with an identity resolved it
  issues the insert with \<open>parseFloat\<close> of the text, which is \<open>NaN\<close> when the text has no
  numeric prefix, and whether the submission succeeds is then the backend's answer alone.
  The inline-edit save handler, on such a text, issues no effect and shows its validation
  message.
\<close>

theorem C10_no_numeric_validation:
  "(\<forall>u. auth_user be = Some u \<longrightarrow>
      snd (handleSubmit be st) =
        [Net GetUser,
         Net (InsertMeasurement
           \<lparr>ins_parameter_id = selectedParameter st, ins_value = parseFloat (value_text st),
            ins_measured_at = now_iso be, ins_supplier_id = user_id u\<rparr>)]
      \<and> (\<not> has_numeric_prefix (value_text st) \<longrightarrow>
           snd (handleSubmit be st) =
             [Net GetUser,
              Net (InsertMeasurement
                \<lparr>ins_parameter_id = selectedParameter st, ins_value = NaN,
                 ins_measured_at = now_iso be, ins_supplier_id = user_id u\<rparr>)]
           \<and> success (fst (handleSubmit be st)) =
               (reply be (InsertMeasurement
                  \<lparr>ins_parameter_id = selectedParameter st, ins_value = NaN,
                   ins_measured_at = now_iso be, ins_supplier_id = user_id u\<rparr>) = None)))
   \<and> (\<not> has_numeric_prefix (editValue lst) \<longrightarrow>
        snd (handleUpdate be lst m) = []
        \<and> list_error (fst (handleUpdate be lst m)) = Some ''Please enter a valid number'')"
proof -
  have nan: "\<not> has_numeric_prefix s \<Longrightarrow> parseFloat s = NaN" for s
    using isNaN_parseFloat [of s] by (simp add: isNaN_iff)
  show ?thesis
    by (auto simp: handleSubmit_def handleUpdate_def Let_def nan split: option.splits)
qed

theorem C10_no_numeric_validation_witness:
  "has_numeric_prefix ''abc'' = False
   \<and> snd (handleSubmit demo_backend text_form) =
       [Net GetUser,
        Net (InsertMeasurement
          \<lparr>ins_parameter_id = ''p1'', ins_value = NaN,
           ins_measured_at = ''2025-02-24T10:16:36.000Z'', ins_supplier_id = ''u1''\<rparr>)]
   \<and> success (fst (handleSubmit demo_backend text_form))
   \<and> snd (handleUpdate demo_backend sample_list (measurements sample_list ! 1)) = []"
  using C10_no_numeric_validation [of demo_backend text_form sample_list "measurements sample_list ! 1"]
  by (simp add: demo_backend_def text_form_def sample_list_def handleSubmit_def handleUpdate_def
        has_numeric_prefix_def starts_number_def parseFloat_defs)

subsection \<open>The measurement list\<close>


text \<open>
  C7. When the edit buffer does not parse as a number (\<open>parseFloat\<close> gives \<open>NaN\<close>, which
  is when the buffer has no numeric prefix), the
  save handler shows the validation message, issues no effect at all and leaves the
  local measurements as they were. When it parses, the only call is an update of the
  value restricted to the id of the edited row; on success the local list is the prior
  list with the value replaced in the rows of that id, and in every case the list keeps
  its length, the rows of other ids are unchanged and no field but the value changes.
\<close>

theorem C7_handleUpdate:
  "isNaN (parseFloat (editValue st)) = (\<not> has_numeric_prefix (editValue st))
   \<and> (isNaN (parseFloat (editValue st)) \<longrightarrow>
      snd (handleUpdate be st m) = []
      \<and> list_error (fst (handleUpdate be st m)) = Some ''Please enter a valid number''
      \<and> measurements (fst (handleUpdate be st m)) = measurements st)
   \<and> (\<not> isNaN (parseFloat (editValue st)) \<longrightarrow>
      filter is_net (snd (handleUpdate be st m)) =
        [Net (UpdateValue (m_id m) (parseFloat (editValue st)))]
      \<and> (reply be (UpdateValue (m_id m) (parseFloat (editValue st))) = None \<longrightarrow>
           measurements (fst (handleUpdate be st m)) =
             map (\<lambda>x. if m_id x = m_id m then x\<lparr>m_value := parseFloat (editValue st)\<rparr> else x)
               (measurements st))
      \<and> (reply be (UpdateValue (m_id m) (parseFloat (editValue st))) \<noteq> None \<longrightarrow>
           measurements (fst (handleUpdate be st m)) = measurements st
           \<and> list_error (fst (handleUpdate be st m)) =
               map_option display_message (reply be (UpdateValue (m_id m) (parseFloat (editValue st))))))
   \<and> length (measurements (fst (handleUpdate be st m))) = length (measurements st)
   \<and> (\<forall>i < length (measurements st).
        m_id (measurements st ! i) \<noteq> m_id m \<longrightarrow>
        measurements (fst (handleUpdate be st m)) ! i = measurements st ! i)
   \<and> (\<forall>i < length (measurements st).
        (measurements (fst (handleUpdate be st m)) ! i)\<lparr>m_value := v\<rparr> =
        (measurements st ! i)\<lparr>m_value := v\<rparr>)"
proof -
  have body: "(isNaN (parseFloat (editValue st)) \<longrightarrow>
      snd (handleUpdate be st m) = []
      \<and> list_error (fst (handleUpdate be st m)) = Some ''Please enter a valid number''
      \<and> measurements (fst (handleUpdate be st m)) = measurements st)
   \<and> (\<not> isNaN (parseFloat (editValue st)) \<longrightarrow>
      filter is_net (snd (handleUpdate be st m)) =
        [Net (UpdateValue (m_id m) (parseFloat (editValue st)))]
      \<and> (reply be (UpdateValue (m_id m) (parseFloat (editValue st))) = None \<longrightarrow>
           measurements (fst (handleUpdate be st m)) =
             map (\<lambda>x. if m_id x = m_id m then x\<lparr>m_value := parseFloat (editValue st)\<rparr> else x)
               (measurements st))
      \<and> (reply be (UpdateValue (m_id m) (parseFloat (editValue st))) \<noteq> None \<longrightarrow>
           measurements (fst (handleUpdate be st m)) = measurements st
           \<and> list_error (fst (handleUpdate be st m)) =
               map_option display_message (reply be (UpdateValue (m_id m) (parseFloat (editValue st))))))
   \<and> length (measurements (fst (handleUpdate be st m))) = length (measurements st)
   \<and> (\<forall>i < length (measurements st).
        m_id (measurements st ! i) \<noteq> m_id m \<longrightarrow>
        measurements (fst (handleUpdate be st m)) ! i = measurements st ! i)
   \<and> (\<forall>i < length (measurements st).
        (measurements (fst (handleUpdate be st m)) ! i)\<lparr>m_value := v\<rparr> =
        (measurements st ! i)\<lparr>m_value := v\<rparr>)"
    by (auto simp: handleUpdate_def Let_def is_net_def split: option.splits)
  with isNaN_parseFloat [of "editValue st"] show ?thesis
    by (rule conjI)
qed

theorem C7_handleUpdate_witness:
  "isNaN (parseFloat (editValue sample_list))
   \<and> handleUpdate demo_backend sample_list (measurements sample_list ! 1) =
       (sample_list\<lparr>list_error := Some ''Please enter a valid number''\<rparr>, [])
   \<and> \<not> isNaN (parseFloat (editValue number_list))
   \<and> snd (handleUpdate demo_backend number_list (measurements number_list ! 1)) =
       [Net (UpdateValue ''m2'' (Fin 17.25)), Timer 1500]
   \<and> map m_value (measurements (fst (handleUpdate demo_backend number_list (measurements number_list ! 1)))) =
       [Fin 15, Fin 17.25, Fin 5]
   \<and> measurements (fst (handleUpdate rejecting_backend number_list (measurements number_list ! 1))) =
       measurements number_list"
proof -
  have nan: "isNaN (parseFloat (editValue sample_list))"
    by (simp add: sample_list_def parseFloat_defs)
  have num: "\<not> isNaN (parseFloat (editValue number_list))"
    by (simp add: number_list_def sample_list_def parseFloat_defs)
  from C7_handleUpdate [of sample_list demo_backend "measurements sample_list ! 1" NaN] nan
  have none: "snd (handleUpdate demo_backend sample_list (measurements sample_list ! 1)) = []"
    by blast
  have rest:
    "handleUpdate demo_backend sample_list (measurements sample_list ! 1) =
       (sample_list\<lparr>list_error := Some ''Please enter a valid number''\<rparr>, [])"
    "snd (handleUpdate demo_backend number_list (measurements number_list ! 1)) =
       [Net (UpdateValue ''m2'' (Fin 17.25)), Timer 1500]"
    "map m_value (measurements (fst (handleUpdate demo_backend number_list (measurements number_list ! 1)))) =
       [Fin 15, Fin 17.25, Fin 5]"
    "measurements (fst (handleUpdate rejecting_backend number_list (measurements number_list ! 1))) =
       measurements number_list"
    by (simp_all add: handleUpdate_def Let_def number_list_def sample_list_def sample_def
          demo_backend_def rejecting_backend_def parseFloat_defs)
  show ?thesis
    using nan num none rest by simp
qed



lemma status_filter_cases:
  "status_filter status_all xs = xs"
  "status_filter status_within xs = filter filter_isWithinLimits xs"
  "status_filter status_outside xs = filter (\<lambda>m. \<not> filter_isWithinLimits m) xs"
  by (simp_all add: status_filter_def)

lemma query_rows_measurements:
  "query_rows ts (q_ops (measurements_query uid f)) tbl =
     sort_key (\<lambda>r. - ts (measured_at r))
       (filter (\<lambda>r. supplier_id r = uid
                   \<and> (startDate f \<noteq> [] \<longrightarrow> ts (startDate f) \<le> ts (measured_at r))
                   \<and> (endDate f \<noteq> [] \<longrightarrow> ts (measured_at r) \<le> ts (endDate f))
                   \<and> (parameter f \<noteq> [] \<longrightarrow> parameter_id r = parameter f)) tbl)"
proof -
  have holds: "list_all (qop_holds ts r) (q_ops (measurements_query uid f)) =
      (supplier_id r = uid
       \<and> (startDate f \<noteq> [] \<longrightarrow> ts (startDate f) \<le> ts (measured_at r))
       \<and> (endDate f \<noteq> [] \<longrightarrow> ts (measured_at r) \<le> ts (endDate f))
       \<and> (parameter f \<noteq> [] \<longrightarrow> parameter_id r = parameter f))" for r
    by (simp add: measurements_query_def measurement_columns_def)
  have ord: "foldr (apply_order ts) (q_ops (measurements_query uid f)) rows =
      sort_key (\<lambda>r. - ts (measured_at r)) rows" for rows
    by (simp add: measurements_query_def)
  show ?thesis
    by (simp add: query_rows_def holds ord)
qed

lemma sorted_rev_uminus: "sorted (map uminus (xs::int list)) \<Longrightarrow> sorted (rev xs)"
  by (induction xs) (auto simp: sorted_append)

lemma query_rows_sorted:
  "sorted (rev (map (\<lambda>r. ts (measured_at r)) (query_rows ts (q_ops (measurements_query uid f)) tbl)))"
proof -
  let ?xs = "query_rows ts (q_ops (measurements_query uid f)) tbl"
  have "sorted (map (\<lambda>r. - ts (measured_at r)) ?xs)"
    by (simp add: query_rows_measurements)
  then have "sorted (map uminus (map (\<lambda>r. ts (measured_at r)) ?xs))"
    by (simp add: comp_def)
  then show ?thesis
    by (rule sorted_rev_uminus)
qed

text \<open>
  C9. A load without an identity issues no query. With an identity the query is on
  \<open>measurements\<close>, starts with the equality of \<open>supplier_id\<close> with the identity's id and
  the descending order on \<open>measured_at\<close>, and holds a \<open>gte\<close> on \<open>measured_at\<close> exactly when
  the start date is not empty, a \<open>lte\<close> on \<open>measured_at\<close> exactly when the end date is not
  empty, and an equality on \<open>parameter_id\<close> exactly when the parameter filter is not
  empty. The status filter is no part of the query: it is applied to the fetched rows.
  On a table, the rows of the query are the rows of that supplier within the inclusive
  bounds and of that parameter, sorted by \<open>measured_at\<close> descending.
\<close>

theorem C9_query_construction:
  "(auth_user be = None \<longrightarrow> snd (loadMeasurements be st) = [Net GetUser])
   \<and> (\<forall>u. auth_user be = Some u \<longrightarrow>
        snd (loadMeasurements be st) =
          [Net GetUser, Net (SelectMeasurements (measurements_query (user_id u) (filters st)))]
        \<and> (\<forall>data. select_reply be (measurements_query (user_id u) (filters st)) = Inr (Some data) \<longrightarrow>
              measurements (fst (loadMeasurements be st)) = status_filter (status (filters st)) data))
   \<and> q_from (measurements_query uid f) = ''measurements''
   \<and> take 2 (q_ops (measurements_query uid f)) = [Q_eq ''supplier_id'' uid, Q_order ''measured_at'' False]
   \<and> (Q_eq c v \<in> set (q_ops (measurements_query uid f))) =
       (c = ''supplier_id'' \<and> v = uid \<or> c = ''parameter_id'' \<and> v = parameter f \<and> parameter f \<noteq> [])
   \<and> (Q_order c a \<in> set (q_ops (measurements_query uid f))) = (c = ''measured_at'' \<and> a = False)
   \<and> (Q_gte c v \<in> set (q_ops (measurements_query uid f))) =
       (c = ''measured_at'' \<and> v = startDate f \<and> startDate f \<noteq> [])
   \<and> (Q_lte c v \<in> set (q_ops (measurements_query uid f))) =
       (c = ''measured_at'' \<and> v = endDate f \<and> endDate f \<noteq> [])
   \<and> measurements_query uid (f\<lparr>status := s\<rparr>) = measurements_query uid f
   \<and> status_filter status_all xs = xs
   \<and> status_filter status_within xs = filter filter_isWithinLimits xs
   \<and> status_filter status_outside xs = filter (\<lambda>m. \<not> filter_isWithinLimits m) xs
   \<and> set (query_rows ts (q_ops (measurements_query uid f)) tbl) =
       {r \<in> set tbl. supplier_id r = uid
          \<and> (startDate f \<noteq> [] \<longrightarrow> ts (startDate f) \<le> ts (measured_at r))
          \<and> (endDate f \<noteq> [] \<longrightarrow> ts (measured_at r) \<le> ts (endDate f))
          \<and> (parameter f \<noteq> [] \<longrightarrow> parameter_id r = parameter f)}
   \<and> sorted (rev (map (\<lambda>r. ts (measured_at r)) (query_rows ts (q_ops (measurements_query uid f)) tbl)))"
proof -
  have rows: "set (query_rows ts (q_ops (measurements_query uid f)) tbl) =
       {r \<in> set tbl. supplier_id r = uid
          \<and> (startDate f \<noteq> [] \<longrightarrow> ts (startDate f) \<le> ts (measured_at r))
          \<and> (endDate f \<noteq> [] \<longrightarrow> ts (measured_at r) \<le> ts (endDate f))
          \<and> (parameter f \<noteq> [] \<longrightarrow> parameter_id r = parameter f)}"
    by (simp add: query_rows_measurements)
  have load1: "auth_user be = None \<longrightarrow> snd (loadMeasurements be st) = [Net GetUser]"
    by (simp add: loadMeasurements_def)
  have load2: "\<forall>u. auth_user be = Some u \<longrightarrow>
        snd (loadMeasurements be st) =
          [Net GetUser, Net (SelectMeasurements (measurements_query (user_id u) (filters st)))]
        \<and> (\<forall>data. select_reply be (measurements_query (user_id u) (filters st)) = Inr (Some data) \<longrightarrow>
              measurements (fst (loadMeasurements be st)) = status_filter (status (filters st)) data)"
    by (auto simp: loadMeasurements_def Let_def split: option.splits sum.splits)
  have ops: "q_from (measurements_query uid f) = ''measurements''"
    "take 2 (q_ops (measurements_query uid f)) = [Q_eq ''supplier_id'' uid, Q_order ''measured_at'' False]"
    "(Q_eq c v \<in> set (q_ops (measurements_query uid f))) =
       (c = ''supplier_id'' \<and> v = uid \<or> c = ''parameter_id'' \<and> v = parameter f \<and> parameter f \<noteq> [])"
    "(Q_order c a \<in> set (q_ops (measurements_query uid f))) = (c = ''measured_at'' \<and> a = False)"
    "(Q_gte c v \<in> set (q_ops (measurements_query uid f))) =
       (c = ''measured_at'' \<and> v = startDate f \<and> startDate f \<noteq> [])"
    "(Q_lte c v \<in> set (q_ops (measurements_query uid f))) =
       (c = ''measured_at'' \<and> v = endDate f \<and> endDate f \<noteq> [])"
    "measurements_query uid (f\<lparr>status := s\<rparr>) = measurements_query uid f"
    by (auto simp: measurements_query_def)
  show ?thesis
    by (intro conjI) (rule load1 load2 ops status_filter_cases rows query_rows_sorted)+
qed

theorem C9_query_construction_witness:
  "snd (loadMeasurements listing_backend filtered_list) =
     [Net GetUser,
      Net (SelectMeasurements
        \<lparr>q_from = ''measurements'',
         q_ops = [Q_eq ''supplier_id'' ''u1'', Q_order ''measured_at'' False,
                  Q_gte ''measured_at'' ''2025-02-01'']\<rparr>)]
   \<and> map m_id (measurements (fst (loadMeasurements listing_backend filtered_list))) = [''m1'', ''m3'']
   \<and> snd (loadMeasurements anonymous_backend filtered_list) = [Net GetUser]
   \<and> map mr_id (query_rows digits_key (q_ops (measurements_query ''u1'' (filters filtered_list)))
         dated_rows) = [''r4'', ''r3'']"
proof -
  have u: "auth_user listing_backend = Some \<lparr>user_id = ''u1''\<rparr>"
    by (simp add: listing_backend_def demo_backend_def)
  from C9_query_construction [of listing_backend filtered_list] u
  have q: "snd (loadMeasurements listing_backend filtered_list) =
      [Net GetUser,
       Net (SelectMeasurements (measurements_query (user_id \<lparr>user_id = ''u1''\<rparr>) (filters filtered_list)))]"
    by blast
  have rest:
    "measurements_query (user_id \<lparr>user_id = ''u1''\<rparr>) (filters filtered_list) =
       \<lparr>q_from = ''measurements'',
        q_ops = [Q_eq ''supplier_id'' ''u1'', Q_order ''measured_at'' False,
                 Q_gte ''measured_at'' ''2025-02-01'']\<rparr>"
    "map m_id (measurements (fst (loadMeasurements listing_backend filtered_list))) = [''m1'', ''m3'']"
    "snd (loadMeasurements anonymous_backend filtered_list) = [Net GetUser]"
    "map mr_id (query_rows digits_key (q_ops (measurements_query ''u1'' (filters filtered_list)))
         dated_rows) = [''r4'', ''r3'']"
    by (simp_all add: query_rows_def digits_key_def digits_val_def digit_val_def is_digit_def
          dated_rows_def measurement_columns_def loadMeasurements_def measurements_query_def status_filter_def
          filter_isWithinLimits_def js_ge_def filtered_list_def sample_list_def sample_def
          listing_backend_def anonymous_backend_def demo_backend_def)
  show ?thesis
    using q rest by simp
qed

subsection \<open>The policies on measurements\<close>

inductive_cases insert_stepE: "policy_step s tbl (Insert_row new) tbl'"

inductive_cases update_stepE: "policy_step s tbl (Update_row old new) tbl'"

inductive_cases delete_stepE: "policy_step s tbl (Delete_row old) tbl'"

lemma owner_passes:
  "passes s (measurement_columns r) (P_col_is_uid ''supplier_id'') = (sess_uid s = Some (supplier_id r))"
  by (auto simp: passes_def measurement_columns_def split: option.splits)

lemma applicable_measurements_select:
  "List.map_filter pol_using (applicable schema_policies s T_measurements FOR_SELECT) =
     (if sess_role s = authenticated then [P_col_is_uid ''supplier_id''] else [])"
  by (simp add: applicable_def schema_policies_def List.map_filter_simps)

lemma applicable_measurements_insert:
  "List.map_filter check_expr (applicable schema_policies s T_measurements FOR_INSERT) =
     (if sess_role s = authenticated then [P_col_is_uid ''supplier_id''] else [])"
  by (simp add: applicable_def schema_policies_def List.map_filter_simps check_expr_def)

lemma applicable_measurements_update:
  "List.map_filter pol_using (applicable schema_policies s T_measurements FOR_UPDATE) =
     (if sess_role s = authenticated then [P_col_is_uid ''supplier_id''] else [])"
  "List.map_filter check_expr (applicable schema_policies s T_measurements FOR_UPDATE) =
     (if sess_role s = authenticated then [P_col_is_uid ''supplier_id''] else [])"
  by (simp_all add: applicable_def schema_policies_def List.map_filter_simps check_expr_def)

lemma applicable_measurements_delete:
  "applicable schema_policies s T_measurements FOR_DELETE = []"
  by (simp add: applicable_def schema_policies_def)

lemma may_select_iff:
  "may_select s r = (sess_role s = authenticated \<and> sess_uid s = Some (supplier_id r))"
  by (simp add: may_select_def using_passes_def applicable_measurements_select owner_passes)

lemma may_insert_iff:
  "may_insert s r = (sess_role s = authenticated \<and> sess_uid s = Some (supplier_id r))"
  by (simp add: may_insert_def check_passes_def applicable_measurements_insert owner_passes)

lemma may_update_iff:
  "may_update s old new =
     (sess_role s = authenticated \<and> sess_uid s = Some (supplier_id old) \<and>
      sess_uid s = Some (supplier_id new))"
  by (auto simp: may_update_def using_passes_def check_passes_def applicable_measurements_update
        owner_passes)

lemma may_delete_never: "\<not> may_delete s r"
  by (simp add: may_delete_def using_passes_def applicable_measurements_delete List.map_filter_simps)

text \<open>
  C1. For an authenticated identity \<open>u\<close> the policies let a select, an insert and an
  update of a measurements row through exactly when the row's \<open>supplier_id\<close> is \<open>u\<close> (for
  an update: of the existing row and of the new row); for any session, a permitted
  select, insert or update implies that \<open>auth.uid()\<close> is the row's \<open>supplier_id\<close>. Hence
  every row a select returns to \<open>u\<close> has \<open>supplier_id = u\<close>, and a row inserted or updated
  by \<open>u\<close> is owned by \<open>u\<close>.
\<close>

theorem C1_measurement_ownership:
  "may_select (identity u) r = (supplier_id r = u)
   \<and> may_insert (identity u) r = (supplier_id r = u)
   \<and> may_update (identity u) old new = (supplier_id old = u \<and> supplier_id new = u)
   \<and> (may_select s r \<longrightarrow> sess_uid s = Some (supplier_id r))
   \<and> (may_insert s r \<longrightarrow> sess_uid s = Some (supplier_id r))
   \<and> (may_update s old new \<longrightarrow> sess_uid s = Some (supplier_id old) \<and> sess_uid s = Some (supplier_id new))
   \<and> (\<forall>x \<in> set (select_rows (identity u) tbl). supplier_id x = u)
   \<and> (policy_step (identity u) tbl (Insert_row new) tbl' \<longrightarrow> supplier_id new = u)
   \<and> (policy_step (identity u) tbl (Update_row old new) tbl' \<longrightarrow>
        supplier_id old = u \<and> supplier_id new = u)"
proof -
  have sel: "may_select (identity u) x = (supplier_id x = u)" for x
    by (auto simp: may_select_iff identity_def)
  have ins: "may_insert (identity u) x = (supplier_id x = u)" for x
    by (auto simp: may_insert_iff identity_def)
  have upd: "may_update (identity u) x y = (supplier_id x = u \<and> supplier_id y = u)" for x y
    by (auto simp: may_update_iff identity_def)
  have any1: "may_select s r \<longrightarrow> sess_uid s = Some (supplier_id r)"
    by (simp add: may_select_iff)
  have any2: "may_insert s r \<longrightarrow> sess_uid s = Some (supplier_id r)"
    by (simp add: may_insert_iff)
  have any3: "may_update s old new \<longrightarrow>
      sess_uid s = Some (supplier_id old) \<and> sess_uid s = Some (supplier_id new)"
    by (auto simp: may_update_iff)
  have rows: "\<forall>x \<in> set (select_rows (identity u) tbl). supplier_id x = u"
    by (simp add: select_rows_def sel)
  have st1: "policy_step (identity u) tbl (Insert_row new) tbl' \<longrightarrow> supplier_id new = u"
    by (auto elim: insert_stepE simp: ins)
  have st2: "policy_step (identity u) tbl (Update_row old new) tbl' \<longrightarrow>
        supplier_id old = u \<and> supplier_id new = u"
    by (auto elim: update_stepE simp: upd)
  show ?thesis
    by (intro conjI) (rule sel ins upd any1 any2 any3 rows st1 st2)+
qed

theorem C1_measurement_ownership_witness:
  "may_select (identity ''u1'') (demo_rows ! 0)
   \<and> \<not> may_select (identity ''u1'') (demo_rows ! 1)
   \<and> \<not> may_insert (identity ''u1'') (demo_rows ! 1)
   \<and> \<not> may_update (identity ''u1'') (demo_rows ! 0) (demo_rows ! 1)
   \<and> \<not> may_select \<lparr>sess_role = anon, sess_uid = None\<rparr> (demo_rows ! 0)
   \<and> map supplier_id (select_rows (identity ''u1'') demo_rows) = [''u1'']
   \<and> policy_step (identity ''u1'') demo_rows (Insert_row (demo_rows ! 0)) (demo_rows @ [demo_rows ! 0])"
proof -
  note c1 = C1_measurement_ownership [of "''u1''" "demo_rows ! 0" "demo_rows ! 0" "demo_rows ! 1"
      "identity ''u1''" demo_rows "demo_rows"]
  have own: "supplier_id (demo_rows ! 0) = ''u1''" "supplier_id (demo_rows ! 1) \<noteq> ''u1''"
    by (simp_all add: demo_rows_def)
  from c1 own have a: "may_select (identity ''u1'') (demo_rows ! 0)"
    and b: "\<not> may_update (identity ''u1'') (demo_rows ! 0) (demo_rows ! 1)"
    and c: "may_insert (identity ''u1'') (demo_rows ! 0)"
    by blast+
  have d: "\<not> may_select (identity ''u1'') (demo_rows ! 1)"
    "\<not> may_insert (identity ''u1'') (demo_rows ! 1)"
    "\<not> may_select \<lparr>sess_role = anon, sess_uid = None\<rparr> (demo_rows ! 0)"
    by (simp_all add: may_select_iff may_insert_iff identity_def demo_rows_def)
  have e: "map supplier_id (select_rows (identity ''u1'') demo_rows) = [''u1'']"
    by (simp add: select_rows_def may_select_iff identity_def demo_rows_def)
  have f: "policy_step (identity ''u1'') demo_rows (Insert_row (demo_rows ! 0)) (demo_rows @ [demo_rows ! 0])"
    by (rule step_insert) (rule c)
  show ?thesis
    using a b d e f by simp
qed

text \<open>
  C4. The policies on measurements are for select, insert and update only: no policy
  applies to a delete on measurements for any session, so no delete of a row is
  permitted, the step relation of the policy layer has no delete transition, and a
  delete statement leaves the table as it was, while the list view does issue a delete
  by row id.
\<close>

theorem C4_no_delete_policy:
  "map pol_command (filter (\<lambda>p. pol_table p = T_measurements) schema_policies) =
     [FOR_SELECT, FOR_INSERT, FOR_UPDATE]
   \<and> applicable schema_policies s T_measurements FOR_DELETE = []
   \<and> \<not> may_delete s r
   \<and> \<not> policy_step s tbl (Delete_row r) tbl'
   \<and> delete_rows s matches tbl = tbl
   \<and> filter is_net (snd (handleDelete be st i)) = [Net (DeleteById i)]"
proof -
  have pols: "map pol_command (filter (\<lambda>p. pol_table p = T_measurements) schema_policies) =
     [FOR_SELECT, FOR_INSERT, FOR_UPDATE]"
    by (simp add: schema_policies_def)
  have nostep: "\<not> policy_step s tbl (Delete_row r) tbl'"
    by (auto elim: delete_stepE simp: may_delete_never)
  have rows: "delete_rows s matches tbl = tbl"
    by (simp add: delete_rows_def may_delete_never)
  have call: "filter is_net (snd (handleDelete be st i)) = [Net (DeleteById i)]"
    by (cases "reply be (DeleteById i)") (simp_all add: handleDelete_def is_net_def)
  show ?thesis
    using pols applicable_measurements_delete [of s] may_delete_never [of s r] nostep rows call
    by simp
qed

theorem C4_no_delete_policy_witness:
  "may_select (identity ''u1'') (demo_rows ! 0)
   \<and> \<not> may_delete (identity ''u1'') (demo_rows ! 0)
   \<and> delete_rows (identity ''u1'') (\<lambda>r. mr_id r = ''r1'') demo_rows = demo_rows
   \<and> \<not> policy_step (identity ''u1'') demo_rows (Delete_row (demo_rows ! 0)) (remove1 (demo_rows ! 0) demo_rows)
   \<and> snd (handleDelete demo_backend sample_list ''m2'') = [Net (DeleteById ''m2'')]"
proof -
  note c4 = C4_no_delete_policy [of "identity ''u1''" "demo_rows ! 0" demo_rows
      "remove1 (demo_rows ! 0) demo_rows" "\<lambda>r. mr_id r = ''r1''" demo_backend sample_list "''m2''"]
  have a: "may_select (identity ''u1'') (demo_rows ! 0)"
    by (simp add: may_select_iff identity_def demo_rows_def)
  have b: "snd (handleDelete demo_backend sample_list ''m2'') = [Net (DeleteById ''m2'')]"
    by (simp add: handleDelete_def demo_backend_def)
  show ?thesis
    using c4 a b by simp
qed

subsection \<open>Supplier provisioning\<close>

lemma insert_supplier_Inr:
  "insert_supplier False i e n tbl = Inr tbl' \<Longrightarrow>
     \<exists>email name. e = Some email \<and> n = Some name \<and> i \<notin> set (map s_id tbl) \<and>
       email \<notin> set (map s_email tbl) \<and>
       tbl' = tbl @ [\<lparr>s_id = i, s_name = name, s_email = email\<rparr>]"
  by (auto simp: insert_supplier_def split: option.splits if_splits)

lemma insert_supplier_skip_Inr:
  "insert_supplier True i e n tbl = Inr tbl' \<Longrightarrow>
     \<exists>email name. e = Some email \<and> n = Some name \<and>
       (if i \<in> set (map s_id tbl) then tbl' = tbl
        else email \<notin> set (map s_email tbl) \<and>
             tbl' = tbl @ [\<lparr>s_id = i, s_name = name, s_email = email\<rparr>])"
  by (auto simp: insert_supplier_def split: option.splits if_splits)

lemma create_identity_Inr:
  assumes "create_identity new db = Inr db'"
  shows "\<exists>e. au_email new = Some e \<and>
           au_id new \<notin> set (map au_id (auth_users db)) \<and>
           au_id new \<notin> set (map s_id (suppliers_table db)) \<and>
           e \<notin> set (map s_email (suppliers_table db)) \<and>
           db' = \<lparr>auth_users = auth_users db @ [new],
                  suppliers_table = suppliers_table db @
                    [\<lparr>s_id = au_id new,
                      s_name = (case json_text (raw_user_meta_data new) ''full_name'' of
                                  Some n \<Rightarrow> n | None \<Rightarrow> e),
                      s_email = e\<rparr>]\<rparr>"
proof -
  from assms have fresh: "au_id new \<notin> set (map au_id (auth_users db))"
    by (auto simp: create_identity_def split: if_splits)
  with assms obtain tbl where tbl: "handle_new_user new (suppliers_table db) = Inr tbl"
    and db': "db' = \<lparr>auth_users = auth_users db @ [new], suppliers_table = tbl\<rparr>"
    by (auto simp: create_identity_def split: if_splits sum.splits)
  from insert_supplier_Inr [OF tbl [unfolded handle_new_user_def]]
  obtain email name where e: "au_email new = Some email"
    and n: "COALESCE (json_text (raw_user_meta_data new) ''full_name'') (au_email new) = Some name"
    and i: "au_id new \<notin> set (map s_id (suppliers_table db))"
    and m: "email \<notin> set (map s_email (suppliers_table db))"
    and t: "tbl = suppliers_table db @ [\<lparr>s_id = au_id new, s_name = name, s_email = email\<rparr>]"
    by blast
  from n e have "name = (case json_text (raw_user_meta_data new) ''full_name'' of
                                  Some n \<Rightarrow> n | None \<Rightarrow> email)"
    by (cases "json_text (raw_user_meta_data new) ''full_name''") simp_all
  with e fresh i m t db' show ?thesis by simp
qed

lemma create_identity_succeeds:
  "(\<exists>db'. create_identity new db = Inr db') =
     (au_id new \<notin> set (map au_id (auth_users db)) \<and>
      au_id new \<notin> set (map s_id (suppliers_table db)) \<and>
      (\<exists>e. au_email new = Some e \<and> e \<notin> set (map s_email (suppliers_table db))))"
  by (cases "json_text (raw_user_meta_data new) ''full_name''")
     (auto simp: create_identity_def handle_new_user_def insert_supplier_def
           split: option.splits sum.splits if_splits)

lemma filter_fresh_id:
  "s_id r \<notin> set (map s_id tbl) \<Longrightarrow> filter (\<lambda>s. s_id s = s_id r) (tbl @ [r]) = [r]"
  by (induction tbl) auto

text \<open>What a completed backfill added.\<close>

lemma backfill_rows_added:
  "backfill_rows us tbl = Inr tbl' \<Longrightarrow>
     \<exists>added. tbl' = tbl @ added \<and>
       distinct (map s_id added) \<and>
       set (map s_id added) \<inter> set (map s_id tbl) = {} \<and>
       (\<forall>s \<in> set added. s_name s = s_email s \<and>
          (\<exists>u \<in> set us. au_id u = s_id s \<and> au_email u = Some (s_email s)))"
proof (induction us arbitrary: tbl)
  case Nil
  then show ?case by simp
next
  case (Cons u us)
  from Cons.prems obtain mid where mid: "insert_supplier True (au_id u) (au_email u) (au_email u) tbl = Inr mid"
    and rest: "backfill_rows us mid = Inr tbl'"
    by (auto split: sum.splits)
  from Cons.IH [OF rest] obtain added where
    a1: "tbl' = mid @ added" and a2: "distinct (map s_id added)"
    and a3: "set (map s_id added) \<inter> set (map s_id mid) = {}"
    and a4: "\<forall>s \<in> set added. s_name s = s_email s \<and>
          (\<exists>u \<in> set us. au_id u = s_id s \<and> au_email u = Some (s_email s))"
    by blast
  from insert_supplier_skip_Inr [OF mid] obtain email where e: "au_email u = Some email"
    and m: "if au_id u \<in> set (map s_id tbl) then mid = tbl
        else email \<notin> set (map s_email tbl) \<and>
             mid = tbl @ [\<lparr>s_id = au_id u, s_name = email, s_email = email\<rparr>]"
    by auto
  show ?case
  proof (cases "au_id u \<in> set (map s_id tbl)")
    case True
    with m have "mid = tbl" by simp
    with a1 a2 a3 a4 show ?thesis
      by (intro exI [of _ added]) auto
  next
    case False
    with m have mid': "mid = tbl @ [\<lparr>s_id = au_id u, s_name = email, s_email = email\<rparr>]"
      by simp
    let ?r = "\<lparr>s_id = au_id u, s_name = email, s_email = email\<rparr>"
    have "tbl' = tbl @ (?r # added)" using a1 mid' by simp
    moreover have "distinct (map s_id (?r # added))" using a2 a3 mid' by auto
    moreover have "set (map s_id (?r # added)) \<inter> set (map s_id tbl) = {}"
      using a3 mid' False by auto
    moreover have "\<forall>s \<in> set (?r # added). s_name s = s_email s \<and>
          (\<exists>v \<in> set (u # us). au_id v = s_id s \<and> au_email v = Some (s_email s))"
      using a4 e by auto
    ultimately show ?thesis by blast
  qed
qed

lemma backfill_rows_covers:
  "backfill_rows us tbl = Inr tbl' \<Longrightarrow> set (map au_id us) \<union> set (map s_id tbl) \<subseteq> set (map s_id tbl')"
proof (induction us arbitrary: tbl)
  case Nil
  then show ?case by simp
next
  case (Cons u us)
  from Cons.prems obtain mid where mid: "insert_supplier True (au_id u) (au_email u) (au_email u) tbl = Inr mid"
    and rest: "backfill_rows us mid = Inr tbl'"
    by (auto split: sum.splits)
  from insert_supplier_skip_Inr [OF mid]
  have "set (map s_id mid) = insert (au_id u) (set (map s_id tbl))"
    by (auto split: if_splits)
  with Cons.IH [OF rest] show ?case by auto
qed

lemma filter_key_single:
  "distinct (map f xs) \<Longrightarrow> x \<in> set xs \<Longrightarrow> filter (\<lambda>y. f y = f x) xs = [x]"
proof (induction xs)
  case Nil
  then show ?case by simp
next
  case (Cons a xs)
  show ?case
  proof (cases "a = x")
    case True
    from Cons.prems have "\<forall>y \<in> set xs. f y \<noteq> f a"
      by (metis distinct.simps(2) image_eqI list.simps(9) set_map)
    then have "filter (\<lambda>y. f y = f a) xs = []"
      by (simp add: filter_empty_conv)
    with True show ?thesis by simp
  next
    case False
    with Cons.prems have "x \<in> set xs" and "f a \<noteq> f x" and "distinct (map f xs)"
      by auto
    with Cons.IH show ?thesis by simp
  qed
qed

lemma backfill_Inr:
  assumes ok: "backfill db = Inr db'"
    and users: "distinct (map au_id (auth_users db))"
    and sups: "distinct (map s_id (suppliers_table db))"
  shows "auth_users db' = auth_users db"
    and "\<exists>added. suppliers_table db' = suppliers_table db @ added"
    and "distinct (map s_id (suppliers_table db'))"
    and "\<forall>u \<in> set (auth_users db). au_id u \<notin> set (map s_id (suppliers_table db)) \<longrightarrow>
           (\<exists>e. au_email u = Some e \<and>
              filter (\<lambda>s. s_id s = au_id u) (suppliers_table db') =
                [\<lparr>s_id = au_id u, s_name = e, s_email = e\<rparr>])"
proof -
  from ok obtain tbl' where run: "backfill_rows (lacking_supplier db) (suppliers_table db) = Inr tbl'"
    and db': "db' = db\<lparr>suppliers_table := tbl'\<rparr>"
    by (auto simp: backfill_def split: sum.splits)
  from backfill_rows_added [OF run] obtain added where
    a1: "tbl' = suppliers_table db @ added" and a2: "distinct (map s_id added)"
    and a3: "set (map s_id added) \<inter> set (map s_id (suppliers_table db)) = {}"
    and a4: "\<forall>s \<in> set added. s_name s = s_email s \<and>
          (\<exists>u \<in> set (lacking_supplier db). au_id u = s_id s \<and> au_email u = Some (s_email s))"
    by blast
  show "auth_users db' = auth_users db" using db' by simp
  show "\<exists>added. suppliers_table db' = suppliers_table db @ added" using db' a1 by simp
  have dist: "distinct (map s_id tbl')"
    using a1 a2 a3 sups by auto
  then show "distinct (map s_id (suppliers_table db'))" using db' by simp
  show "\<forall>u \<in> set (auth_users db). au_id u \<notin> set (map s_id (suppliers_table db)) \<longrightarrow>
           (\<exists>e. au_email u = Some e \<and>
              filter (\<lambda>s. s_id s = au_id u) (suppliers_table db') =
                [\<lparr>s_id = au_id u, s_name = e, s_email = e\<rparr>])"
  proof (intro ballI impI)
    fix u
    assume u: "u \<in> set (auth_users db)" and lack: "au_id u \<notin> set (map s_id (suppliers_table db))"
    then have "u \<in> set (lacking_supplier db)"
      by (simp add: lacking_supplier_def)
    with backfill_rows_covers [OF run] have "au_id u \<in> set (map s_id tbl')"
      by auto
    with a1 lack obtain s where s: "s \<in> set added" and sid: "s_id s = au_id u"
      by auto
    from a4 s obtain v where v: "v \<in> set (lacking_supplier db)" and vid: "au_id v = s_id s"
      and ve: "au_email v = Some (s_email s)" and nm: "s_name s = s_email s"
      by blast
    from v have "v \<in> set (auth_users db)"
      by (simp add: lacking_supplier_def)
    with users u vid sid have "v = u"
      by (metis distinct_map inj_onD)
    with ve have e: "au_email u = Some (s_email s)" by simp
    have s_eq: "s = \<lparr>s_id = au_id u, s_name = s_email s, s_email = s_email s\<rparr>"
      using sid nm by simp
    from s a1 have "s \<in> set tbl'" by simp
    with dist have "filter (\<lambda>x. s_id x = s_id s) tbl' = [s]"
      by (rule filter_key_single)
    with sid s_eq e db' show "\<exists>e. au_email u = Some e \<and>
              filter (\<lambda>s. s_id s = au_id u) (suppliers_table db') =
                [\<lparr>s_id = au_id u, s_name = e, s_email = e\<rparr>]"
      by auto
  qed
qed

lemma filter_key_at_most_one:
  "distinct (map f xs) \<Longrightarrow> length (filter (\<lambda>y. f y = k) xs) \<le> 1"
proof (induction xs)
  case Nil
  then show ?case by simp
next
  case (Cons a xs)
  show ?case
  proof (cases "f a = k")
    case True
    from Cons.prems have "\<forall>y \<in> set xs. f y \<noteq> f a"
      by (metis distinct.simps(2) image_eqI list.simps(9) set_map)
    with True have "filter (\<lambda>y. f y = k) xs = []"
      by (simp add: filter_empty_conv)
    with True show ?thesis by simp
  next
    case False
    with Cons show ?thesis by simp
  qed
qed

lemma backfill_rows_succeeds:
  "distinct (map au_email us) \<Longrightarrow>
   \<forall>u \<in> set us. \<exists>e. au_email u = Some e \<and> e \<notin> set (map s_email tbl) \<Longrightarrow>
   \<exists>tbl'. backfill_rows us tbl = Inr tbl'"
proof (induction us arbitrary: tbl)
  case Nil
  then show ?case by simp
next
  case (Cons u us)
  from Cons.prems obtain e where e: "au_email u = Some e" and fresh: "e \<notin> set (map s_email tbl)"
    by auto
  from Cons.prems(1) e have dist: "distinct (map au_email us)"
    and "Some e \<notin> set (map au_email us)"
    by simp_all
  then have others: "\<forall>v \<in> set us. au_email v \<noteq> Some e"
    by (auto simp: image_iff)
  show ?case
  proof (cases "au_id u \<in> set (map s_id tbl)")
    case True
    then have "insert_supplier True (au_id u) (au_email u) (au_email u) tbl = Inr tbl"
      using e by (simp add: insert_supplier_def)
    moreover from Cons.IH [OF dist, of tbl] Cons.prems obtain tbl' where "backfill_rows us tbl = Inr tbl'"
      by auto
    ultimately show ?thesis by simp
  next
    case False
    let ?mid = "tbl @ [\<lparr>s_id = au_id u, s_name = e, s_email = e\<rparr>]"
    from False fresh e have ins: "insert_supplier True (au_id u) (au_email u) (au_email u) tbl = Inr ?mid"
      by (simp add: insert_supplier_def)
    have "\<forall>v \<in> set us. \<exists>e'. au_email v = Some e' \<and> e' \<notin> set (map s_email ?mid)"
    proof
      fix v
      assume v: "v \<in> set us"
      with Cons.prems(2) obtain e' where e': "au_email v = Some e'" "e' \<notin> set (map s_email tbl)"
        by auto
      with others v have "e' \<noteq> e" by auto
      with e' show "\<exists>e'. au_email v = Some e' \<and> e' \<notin> set (map s_email ?mid)"
        by simp
    qed
    from Cons.IH [OF dist this] obtain tbl' where "backfill_rows us ?mid = Inr tbl'"
      by auto
    with ins show ?thesis by simp
  qed
qed

lemma backfill_succeeds:
  assumes "distinct (map au_email (lacking_supplier db))"
    and "\<forall>u \<in> set (lacking_supplier db). \<exists>e. au_email u = Some e \<and> e \<notin> set (map s_email (suppliers_table db))"
  shows "\<exists>db'. backfill db = Inr db'"
proof -
  from backfill_rows_succeeds [OF assms] obtain tbl'
    where "backfill_rows (lacking_supplier db) (suppliers_table db) = Inr tbl'"
    by auto
  then show ?thesis by (simp add: backfill_def)
qed

text \<open>
  What the two statements have done when they complete. The trigger has inserted exactly
  one supplier row with the identity's id, its email, and as name the metadata's
  \<open>full_name\<close> when present, otherwise the email. The backfill, on tables whose ids are
  unique, has added one row for every identity that lacked one, always with the email
  as name, and every identity has at most one supplier row.
\<close>

lemma provisioning_completed:
  "(create_identity new db = Inr db' \<longrightarrow>
      auth_users db' = auth_users db @ [new]
      \<and> (\<exists>e. au_email new = Some e \<and>
            filter (\<lambda>s. s_id s = au_id new) (suppliers_table db') =
              [\<lparr>s_id = au_id new,
                s_name = (case json_text (raw_user_meta_data new) ''full_name'' of
                            Some n \<Rightarrow> n | None \<Rightarrow> e),
                s_email = e\<rparr>]))
   \<and> (backfill db = Inr db'' \<and> distinct (map au_id (auth_users db)) \<and>
        distinct (map s_id (suppliers_table db)) \<longrightarrow>
        auth_users db'' = auth_users db
        \<and> (\<exists>added. suppliers_table db'' = suppliers_table db @ added)
        \<and> (\<forall>u \<in> set (auth_users db). au_id u \<notin> set (map s_id (suppliers_table db)) \<longrightarrow>
             (\<exists>e. au_email u = Some e \<and>
                filter (\<lambda>s. s_id s = au_id u) (suppliers_table db'') =
                  [\<lparr>s_id = au_id u, s_name = e, s_email = e\<rparr>]))
        \<and> (\<forall>u \<in> set (auth_users db'').
              length (filter (\<lambda>s. s_id s = au_id u) (suppliers_table db'')) \<le> 1))"
proof (intro conjI impI)
  assume ok: "create_identity new db = Inr db'"
  from create_identity_Inr [OF ok] obtain e where e: "au_email new = Some e"
    and fresh: "au_id new \<notin> set (map s_id (suppliers_table db))"
    and db': "db' = \<lparr>auth_users = auth_users db @ [new],
                  suppliers_table = suppliers_table db @
                    [\<lparr>s_id = au_id new,
                      s_name = (case json_text (raw_user_meta_data new) ''full_name'' of
                                  Some n \<Rightarrow> n | None \<Rightarrow> e),
                      s_email = e\<rparr>]\<rparr>"
    by blast
  show "auth_users db' = auth_users db @ [new]" using db' by simp
  let ?row = "\<lparr>s_id = au_id new,
                s_name = (case json_text (raw_user_meta_data new) ''full_name'' of
                            Some n \<Rightarrow> n | None \<Rightarrow> e),
                s_email = e\<rparr>"
  from fresh have "filter (\<lambda>s. s_id s = s_id ?row) (suppliers_table db @ [?row]) = [?row]"
    by (intro filter_fresh_id) simp
  with db' e
  show "\<exists>e. au_email new = Some e \<and>
            filter (\<lambda>s. s_id s = au_id new) (suppliers_table db') =
              [\<lparr>s_id = au_id new,
                s_name = (case json_text (raw_user_meta_data new) ''full_name'' of
                            Some n \<Rightarrow> n | None \<Rightarrow> e),
                s_email = e\<rparr>]"
    by simp
next
  assume "backfill db = Inr db'' \<and> distinct (map au_id (auth_users db)) \<and>
        distinct (map s_id (suppliers_table db))"
  then have ok: "backfill db = Inr db''" and users: "distinct (map au_id (auth_users db))"
    and sups: "distinct (map s_id (suppliers_table db))"
    by simp_all
  note r = backfill_Inr [OF ok users sups]
  show "auth_users db'' = auth_users db" by (rule r(1))
  show "\<exists>added. suppliers_table db'' = suppliers_table db @ added" by (rule r(2))
  show "\<forall>u \<in> set (auth_users db). au_id u \<notin> set (map s_id (suppliers_table db)) \<longrightarrow>
             (\<exists>e. au_email u = Some e \<and>
                filter (\<lambda>s. s_id s = au_id u) (suppliers_table db'') =
                  [\<lparr>s_id = au_id u, s_name = e, s_email = e\<rparr>])"
    by (rule r(4))
  show "\<forall>u \<in> set (auth_users db'').
              length (filter (\<lambda>s. s_id s = au_id u) (suppliers_table db'')) \<le> 1"
    using filter_key_at_most_one [OF r(3)] by blast
qed

lemmas provisioning_defs = create_identity_def handle_new_user_def insert_supplier_def backfill_def
  lacking_supplier_def json_text_def legacy_db_def test_supplier_def alice_def

text \<open>
  C3. The trigger inserts, for a new identity, the supplier row with the identity's id
  and email and with the metadata's \<open>full_name\<close> as name when present, and the backfill
  is to insert the same row for an identity that lacks one. It does not: it selects
  \<open>email as name\<close>. With the seeded supplier row in \<open>suppliers\<close> and one identity \<open>a1\<close>
  in \<open>auth.users\<close>, whose email is \<open>alice@example.com\<close> and whose metadata has the
  \<open>full_name\<close> \<open>Alice\<close>, that identity lacks a supplier row; the backfill completes and
  gives it the row named \<open>alice@example.com\<close>, where the trigger function, run for the
  same identity on the same table, inserts the row named \<open>Alice\<close>.
\<close>

theorem C3_backfill_divergence:
  "lacking_supplier legacy_db = [alice]
   \<and> json_text (raw_user_meta_data alice) ''full_name'' = Some ''Alice''
   \<and> backfill legacy_db =
       Inr \<lparr>auth_users = [alice],
            suppliers_table =
              [test_supplier,
               \<lparr>s_id = ''a1'', s_name = ''alice@example.com'', s_email = ''alice@example.com''\<rparr>]\<rparr>
   \<and> handle_new_user alice (suppliers_table legacy_db) =
       Inr [test_supplier,
            \<lparr>s_id = ''a1'', s_name = ''Alice'', s_email = ''alice@example.com''\<rparr>]"
  by (simp add: provisioning_defs)

end
